theory Spec2Isabelle
  imports Main
begin

section \<open>JavaScript strings and values\<close>

text \<open>
  A JavaScript string is a sequence of UTF-16 code units; it is modelled as the list of
  their numbers, so that the bullet (U+2022) and the dash (U+2014) of the source and the
  white space of \<open>trim\<close> and of the regular expression class \<open>\s\<close> are exactly
  those of the language. \<open>js\<close> turns an ASCII literal into such a string.
\<close>

type_synonym jstring = "nat list"

definition js :: "string \<Rightarrow> jstring" where
  "js s = map of_char s"

text \<open>
  The values the program handles come from \<open>JSON.parse\<close> or \<open>jsyaml.load\<close>. The
  program never computes with a number: it tests it for truthiness, compares it with
  another value of a \<open>Set\<close>, or converts it to a string. A number is therefore modelled
  by the text that \<open>Number.prototype.toString\<close> gives for it (\<open>42\<close>, \<open>0.5\<close>,
  \<open>1e+21\<close>, \<open>NaN\<close>; both zeros give \<open>0\<close>): two numbers are the same value
  (SameValueZero) exactly when they have the same text. An object is the list of its own
  properties; the objects of a document are plain, without a property named \<open>toString\<close>
  or \<open>valueOf\<close> of their own.
\<close>

datatype jsvalue =
    JUndefined
  | JNull
  | JBool bool
  | JNum jstring
  | JStr jstring
  | JArr "jsvalue list"
  | JObj "(jstring \<times> jsvalue) list"

datatype exn = TypeError | SyntaxError | YAMLException | NetworkFailure

text \<open>\<open>ToBoolean\<close>: what \<open>if (v)\<close>, \<open>!v\<close>, \<open>a || b\<close>, \<open>a && b\<close> and \<open>filter(Boolean)\<close> test.\<close>

fun truthy :: "jsvalue \<Rightarrow> bool" where
  "truthy JUndefined = False"
| "truthy JNull = False"
| "truthy (JBool b) = b"
| "truthy (JNum n) = (n \<noteq> js ''0'' \<and> n \<noteq> js ''NaN'')"
| "truthy (JStr s) = (s \<noteq> [])"
| "truthy (JArr vs) = True"
| "truthy (JObj kvs) = True"

fun nullish :: "jsvalue \<Rightarrow> bool" where
  "nullish JUndefined = True"
| "nullish JNull = True"
| "nullish v = False"

text \<open>\<open>a || b\<close> on values.\<close>

definition or_else :: "jsvalue \<Rightarrow> jsvalue \<Rightarrow> jsvalue" where
  "or_else a b = (if truthy a then a else b)"

text \<open>
  White space as \<open>String.prototype.trim\<close> and the class \<open>\s\<close> define it: the
  WhiteSpace and LineTerminator code points of ECMAScript.
\<close>

definition isWhiteSpace :: "nat \<Rightarrow> bool" where
  "isWhiteSpace c \<longleftrightarrow>
     c = 9 \<or> c = 10 \<or> c = 11 \<or> c = 12 \<or> c = 13 \<or> c = 32 \<or> c = 160 \<or> c = 5760 \<or>
     (8192 \<le> c \<and> c \<le> 8202) \<or> c = 8232 \<or> c = 8233 \<or> c = 8239 \<or> c = 8287 \<or>
     c = 12288 \<or> c = 65279"

definition trim :: "jstring \<Rightarrow> jstring" where
  "trim s = rev (dropWhile isWhiteSpace (rev (dropWhile isWhiteSpace s)))"

definition startsWith :: "jstring \<Rightarrow> jstring \<Rightarrow> bool" where
  "startsWith s p \<longleftrightarrow> take (length p) s = p"

definition endsWith :: "jstring \<Rightarrow> jstring \<Rightarrow> bool" where
  "endsWith s p \<longleftrightarrow> take (length p) (rev s) = rev p"

section \<open>The loader\<close>

text \<open>
  What the browser gives the script: \<open>fetch\<close> (it rejects, or resolves to a response
  with its \<open>ok\<close> flag and the outcome of reading the body with \<open>res.text()\<close>),
  \<open>JSON.parse\<close>, \<open>window.jsyaml.load\<close> when the library is loaded, and the
  \<open>theme\<close> parameter of the query string (\<open>URLSearchParams.get\<close>: \<open>null\<close> when
  absent). None of them is code of the repository; they are parameters of the model.
\<close>

datatype response = Response (ok: bool) (body: "exn + jstring")

record platform =
  fetch :: "jstring \<Rightarrow> exn + response"
  JSON_parse :: "jstring \<Rightarrow> exn + jsvalue"
  jsyaml_load :: "(jstring \<Rightarrow> exn + jsvalue) option"
  url_theme :: "jstring option"

record fetched =
  file_path :: jstring
  file_text :: jstring

text \<open>
  \<open>tryFetch\<close>: the \<open>try\<close> block, where a rejected promise is an exception, and the
  \<open>catch\<close> that turns it into \<open>null\<close>. The calls of \<open>LOG\<close> only print:
  \<open>LOG\<close> swallows what printing throws, and their arguments (such as
  \<open>Object.keys(obj || {})\<close>) are evaluated without an exception. They are left out
  throughout.
\<close>

definition tryFetch_try :: "platform \<Rightarrow> jstring \<Rightarrow> exn + fetched option" where
  "tryFetch_try env path =
     (case fetch env path of
        Inl e \<Rightarrow> Inl e
      | Inr res \<Rightarrow>
          if \<not> ok res then Inr None
          else (case body res of
                  Inl e \<Rightarrow> Inl e
                | Inr txt \<Rightarrow> Inr (Some \<lparr>file_path = path, file_text = txt\<rparr>)))"

definition tryFetch :: "platform \<Rightarrow> jstring \<Rightarrow> fetched option" where
  "tryFetch env path = (case tryFetch_try env path of Inl e \<Rightarrow> None | Inr r \<Rightarrow> r)"

definition parseMaybeJSON :: "platform \<Rightarrow> jstring \<Rightarrow> exn + jsvalue" where
  "parseMaybeJSON env txt =
     (let t = trim txt in
      if startsWith t (js ''{'') \<or> startsWith t (js ''['') then JSON_parse env t
      else Inr JNull)"

text \<open>How one turn of the loop of \<open>loadResumeData\<close> ends.\<close>

datatype completion = Continue | Return jsvalue

text \<open>The \<open>try\<close> block of the loop: an exception of a parser leaves it as \<open>Inl\<close>.\<close>

definition load_try :: "platform \<Rightarrow> jstring \<Rightarrow> fetched \<Rightarrow> exn + completion" where
  "load_try env p f =
     (if endsWith p (js ''.json'') then
        (case JSON_parse env (file_text f) of
           Inl e \<Rightarrow> Inl e
         | Inr obj \<Rightarrow> Inr (Return obj))
      else
        (case parseMaybeJSON env (file_text f) of
           Inl e \<Rightarrow> Inl e
         | Inr maybe \<Rightarrow>
             if truthy maybe then Inr (Return maybe)
             else (case jsyaml_load env of
                     Some load \<Rightarrow>
                       (case load (file_text f) of
                          Inl e \<Rightarrow> Inl e
                        | Inr y \<Rightarrow> Inr (Return y))
                   | None \<Rightarrow> Inr Continue)))"

text \<open>The body of the loop: the fetch, the \<open>try\<close> block and its \<open>catch\<close>.\<close>

definition load_body :: "platform \<Rightarrow> jstring \<Rightarrow> exn + completion" where
  "load_body env p =
     (case tryFetch env p of
        None \<Rightarrow> Inr Continue
      | Some f \<Rightarrow>
          (case load_try env p f of
             Inl e \<Rightarrow> Inr Continue
           | Inr c \<Rightarrow> Inr c))"

text \<open>
  The loop over the candidates, and the \<open>return null\<close> after it. Both copies of the
  script have this loop, statement for statement; they differ in the list it runs over.
\<close>

fun load_loop :: "platform \<Rightarrow> jstring list \<Rightarrow> exn + jsvalue" where
  "load_loop env [] = Inr JNull"
| "load_loop env (p # ps) =
     (case load_body env p of
        Inl e \<Rightarrow> Inl e
      | Inr Continue \<Rightarrow> load_loop env ps
      | Inr (Return v) \<Rightarrow> Inr v)"

text \<open>The candidates of \<open>src/assets/app.js\<close>.\<close>

definition candidates :: "jstring list" where
  "candidates =
     [js ''resume.json'', js ''/resume.json'',
      js ''resume.yaml'', js ''/resume.yaml'',
      js ''resume.yml'', js ''/resume.yml'']"

definition loadResumeData :: "platform \<Rightarrow> exn + jsvalue" where
  "loadResumeData env = load_loop env candidates"

text \<open>The candidates of the other copy of the script, \<open>src/unnamed/part_000\<close>.\<close>

definition candidates_part000 :: "jstring list" where
  "candidates_part000 = [js ''resume.yaml'', js ''resume.yml'', js ''resume.json'']"

definition loadResumeData_part000 :: "platform \<Rightarrow> exn + jsvalue" where
  "loadResumeData_part000 env = load_loop env candidates_part000"

section \<open>Strings of values\<close>

text \<open>\<open>ToString\<close> of a value, and the \<open>join\<close> of an array that it uses.\<close>

fun join_strings :: "jstring \<Rightarrow> jstring list \<Rightarrow> jstring" where
  "join_strings sep [] = []"
| "join_strings sep [x] = x"
| "join_strings sep (x # y # ys) = x @ sep @ join_strings sep (y # ys)"

fun ToString :: "jsvalue \<Rightarrow> jstring" where
  "ToString JUndefined = js ''undefined''"
| "ToString JNull = js ''null''"
| "ToString (JBool b) = (if b then js ''true'' else js ''false'')"
| "ToString (JNum n) = n"
| "ToString (JStr s) = s"
| "ToString (JArr vs) =
     join_strings (js '','') (map (\<lambda>v. if nullish v then [] else ToString v) vs)"
| "ToString (JObj kvs) = js ''[object Object]''"

text \<open>\<open>Array.prototype.join\<close>: \<open>null\<close> and \<open>undefined\<close> elements give the empty string.\<close>

definition array_join :: "jstring \<Rightarrow> jsvalue list \<Rightarrow> jstring" where
  "array_join sep vs = join_strings sep (map (\<lambda>v. if nullish v then [] else ToString v) vs)"

text \<open>
  \<open>s.replace(/\s+/g, '')\<close>: every maximal run of white space is replaced by the empty
  string.
\<close>

function strip_ws :: "jstring \<Rightarrow> jstring" where
  "strip_ws [] = []"
| "strip_ws (c # cs) =
     (if isWhiteSpace c then strip_ws (dropWhile isWhiteSpace cs) else c # strip_ws cs)"
  by pat_completeness auto
termination
  by (relation "measure length") (auto simp: length_dropWhile_le less_Suc_eq_le)

text \<open>
  Reading a property. Of the names the script reads (\<open>name\<close>, \<open>title\<close>, \<open>theme\<close>,
  \<open>links\<close>, \<open>url\<close>, \<open>items\<close>, ...) none is a property of a string, a number, a
  boolean or an array, so there the result is \<open>undefined\<close>. On \<open>null\<close> and
  \<open>undefined\<close> JavaScript throws a TypeError instead: the functions below test
  \<open>nullish\<close> where the source reads a property of a value it has not tested.
\<close>

fun getprop :: "jsvalue \<Rightarrow> jstring \<Rightarrow> jsvalue" where
  "getprop (JObj kvs) k = (case map_of kvs k of Some v \<Rightarrow> v | None \<Rightarrow> JUndefined)"
| "getprop v k = JUndefined"

fun isArray :: "jsvalue \<Rightarrow> bool" where
  "isArray (JArr vs) = True"
| "isArray v = False"

fun elements :: "jsvalue \<Rightarrow> jsvalue list" where
  "elements (JArr vs) = vs"
| "elements v = []"

section \<open>The document\<close>

text \<open>
  An element has a tag, a class name (empty when none was set), attributes and children.
  Markup assigned to \<open>innerHTML\<close> is kept as it is given (\<open>RawHtml\<close>): the model does
  not parse it.
\<close>

datatype node =
    TextNode jstring
  | RawHtml jstring
  | Elem jstring jstring "(jstring \<times> jstring) list" "node list"

text \<open>
  The part of the document the script writes: the class name and the children of the
  container \<open>#resume\<close>, and whether the notice \<open>#dev-note\<close> is hidden (\<open>None\<close> when
  the page has no such element). A function that writes to the document returns how it
  ended together with the document as it left it.
\<close>

record page =
  root_class :: jstring
  root_children :: "node list"
  note_hidden :: "bool option"

datatype outcome = Completed | Raised exn

text \<open>
  The third argument of \<open>make\<close>: an array of nodes (or \<open>null\<close>s) built by the script, or a
  value (\<open>undefined\<close> when the argument is left out).
\<close>

datatype content = Nodes "node option list" | Val jsvalue

definition innerHTML_of :: "jsvalue \<Rightarrow> jstring" where
  "innerHTML_of v = (if v = JNull then [] else ToString v)"

definition make :: "jstring \<Rightarrow> jstring \<Rightarrow> content \<Rightarrow> node" where
  "make tag cls c =
     Elem tag cls []
       (case c of
          Nodes ns \<Rightarrow> List.map_filter (\<lambda>n. n) ns
        | Val v \<Rightarrow>
            (case v of
               JUndefined \<Rightarrow> []
             | JArr vs \<Rightarrow> map (\<lambda>x. TextNode (ToString x)) (filter truthy vs)
             | _ \<Rightarrow> [RawHtml (innerHTML_of v)]))"

fun append_nodes :: "node \<Rightarrow> node list \<Rightarrow> node" where
  "append_nodes (Elem tag cls as cs) ns = Elem tag cls as (cs @ ns)"
| "append_nodes n ns = n"

fun setAttribute :: "node \<Rightarrow> jstring \<Rightarrow> jstring \<Rightarrow> node" where
  "setAttribute (Elem tag cls as cs) k v = Elem tag cls (as @ [(k, v)]) cs"
| "setAttribute n k v = n"

definition textContent :: "jstring \<Rightarrow> node list" where
  "textContent s = (if s = [] then [] else [TextNode s])"

definition linkify :: "jsvalue \<Rightarrow> jsvalue \<Rightarrow> node option" where
  "linkify url label =
     (if \<not> truthy url then None
      else Some (Elem (js ''a'') []
                   [(js ''href'', ToString url), (js ''target'', js ''_blank''),
                    (js ''rel'', js ''noopener'')]
                   (textContent (ToString (or_else label url)))))"

section \<open>The sections of the page\<close>

definition heading :: "string \<Rightarrow> node" where
  "heading title = make (js ''h2'') [] (Val (JStr (js title)))"

definition new_section :: "jstring \<Rightarrow> node list \<Rightarrow> node" where
  "new_section cls ns = append_nodes (make (js ''section'') cls (Val JUndefined)) ns"

definition deco_svg :: jstring where
  \<open>deco_svg = js ''<svg width="49" height="49" viewBox="0 0 49 49" fill="none" xmlns="http://www.w3.org/2000/svg"><path fill="currentColor" d="M17 0h15v15H17zM34 17h15v15H34z"></path><path opacity=".2" fill="currentColor" d="M34 34h15v15H34zM17 17h15v15H17zM0 0h15v15H0z"></path><path fill="currentColor" d="M34 0h15v15H34z"></path></svg>''\<close>

text \<open>The separator of the contact line, \<open>make('span','dot',...)\<close> with the bullet U+2022.\<close>

definition dot :: node where
  "dot = make (js ''span'') (js ''dot'') (Val (JStr [8226]))"

text \<open>\<open>bits.forEach((b,i) => ...)\<close>: what the contact line gets from index \<open>i\<close> on.\<close>

fun contact_children :: "nat \<Rightarrow> node list \<Rightarrow> node list" where
  "contact_children i [] = []"
| "contact_children i (b # bs) =
     (if i > 0 then [dot] else []) @ [b] @ contact_children (Suc i) bs"

text \<open>\<open>d.links.forEach(l => ...)\<close>: reading \<open>l.url\<close> throws when \<open>l\<close> is \<open>null\<close>.\<close>

fun link_bits :: "jsvalue list \<Rightarrow> exn + node list" where
  "link_bits [] = Inr []"
| "link_bits (l # ls) =
     (if nullish l then Inl TypeError
      else (case link_bits ls of
              Inl e \<Rightarrow> Inl e
            | Inr bs \<Rightarrow>
                Inr ((case linkify (getprop l (js ''url'')) (getprop l (js ''label'')) of
                        Some a \<Rightarrow> [a]
                      | None \<Rightarrow> []) @ bs)))"

text \<open>
  \<open>renderHeader\<close>, by the local variables of the source: the element \<open>who\<close>, the array
  \<open>bits\<close>, the element \<open>contacts\<close> once the \<open>forEach\<close> over \<open>bits\<close> has filled it,
  and the element \<open>deco\<close>. Reading \<open>d.name\<close>, the first thing the function does, throws
  when \<open>d\<close> is \<open>null\<close> or \<open>undefined\<close>.
\<close>

definition header_who :: "jsvalue \<Rightarrow> node" where
  "header_who d =
     make (js ''div'') (js ''who'')
       (Nodes (filter (\<lambda>n. n \<noteq> None)
          [Some (make (js ''h1'') []
                   (Val (or_else (getprop d (js ''name'')) (JStr (js ''Your Name''))))),
           if truthy (getprop d (js ''title''))
           then Some (make (js ''div'') (js ''title'') (Val (getprop d (js ''title''))))
           else None]))"

definition contact_bits :: "jsvalue \<Rightarrow> exn + node list" where
  "contact_bits d =
     (let bits1 = (if truthy (getprop d (js ''location''))
                   then [make (js ''span'') [] (Val (getprop d (js ''location'')))]
                   else []);
          bits2 = (if truthy (getprop d (js ''phone'')) then
                     (let tel = strip_ws (ToString (getprop d (js ''phone''))) in
                      case linkify (JStr (js ''tel:'' @ tel)) (getprop d (js ''phone'')) of
                        Some a \<Rightarrow> [a]
                      | None \<Rightarrow> [])
                   else []);
          bits3 = (if truthy (getprop d (js ''email'')) then
                     (case linkify (JStr (js ''mailto:'' @ ToString (getprop d (js ''email''))))
                             (getprop d (js ''email'')) of
                        Some a \<Rightarrow> [a]
                      | None \<Rightarrow> [])
                   else [])
      in case (if isArray (getprop d (js ''links''))
               then link_bits (elements (getprop d (js ''links'')))
               else Inr []) of
           Inl e \<Rightarrow> Inl e
         | Inr bits4 \<Rightarrow> Inr (bits1 @ bits2 @ bits3 @ bits4))"

definition contacts_line :: "node list \<Rightarrow> node" where
  "contacts_line bits =
     append_nodes (make (js ''div'') (js ''contacts-line'') (Val JUndefined))
       (contact_children 0 bits)"

definition header_deco :: node where
  "header_deco =
     setAttribute (make (js ''div'') (js ''deco'') (Val (JStr deco_svg)))
       (js ''aria-hidden'') (js ''true'')"

definition renderHeader :: "jsvalue \<Rightarrow> exn + node" where
  "renderHeader d =
     (if nullish d then Inl TypeError
      else
        (case contact_bits d of
           Inl e \<Rightarrow> Inl e
         | Inr bits \<Rightarrow>
             (let header = make (js ''div'') (js ''hdr'')
                             (Nodes [Some (header_who d), Some (contacts_line bits)])
              in Inr (append_nodes header [header_deco]))))"

text \<open>
  \<open>new Set(all)\<close> keeps the first of the values that are the same (SameValueZero), in
  the order of insertion. Two strings, numbers or booleans are the same when they are equal;
  an array or an object is the same as itself only, and the values of a parsed document are
  all different objects.
\<close>

fun same_value_zero :: "jsvalue \<Rightarrow> jsvalue \<Rightarrow> bool" where
  "same_value_zero (JArr xs) v = False"
| "same_value_zero (JObj kvs) v = False"
| "same_value_zero u v = (u = v)"

definition set_add :: "jsvalue list \<Rightarrow> jsvalue \<Rightarrow> jsvalue list" where
  "set_add seen v = (if list_ex (\<lambda>u. same_value_zero u v) seen then seen else seen @ [v])"

definition new_Set :: "jsvalue list \<Rightarrow> jsvalue list" where
  "new_Set vs = foldl set_add [] vs"

text \<open>\<open>skills.forEach(s => { if (s && Array.isArray(s.items)) ... })\<close>\<close>

definition all_items :: "jsvalue list \<Rightarrow> jsvalue list" where
  "all_items skills =
     concat (map (\<lambda>s. if truthy s \<and> isArray (getprop s (js ''items''))
                       then elements (getprop s (js ''items'')) else []) skills)"

definition renderSkills :: "jsvalue \<Rightarrow> node option" where
  "renderSkills skills =
     (if \<not> isArray skills \<or> elements skills = [] then None
      else
        (let lst = array_join (js '', '') (new_Set (all_items (elements skills)))
         in Some (new_section (js ''sec'')
                    [heading ''Skills'', make (js ''div'') (js ''muted'') (Val (JStr lst))])))"

definition highlights_list :: "jsvalue \<Rightarrow> node list" where
  "highlights_list j =
     (let hl = getprop j (js ''highlights'') in
      if isArray hl \<and> elements hl \<noteq> []
      then [append_nodes (make (js ''ul'') (js ''tight muted'') (Val JUndefined))
              (map (\<lambda>h. make (js ''li'') [] (Val h)) (elements hl))]
      else [])"

definition experience_item :: "jsvalue \<Rightarrow> node" where
  "experience_item j =
     (let dur = array_join (js '' - '')
                  (filter truthy [getprop j (js ''start''), getprop j (js ''end'')]);
          meta = array_join [32, 8226, 32]
                   (filter truthy [JStr dur, getprop j (js ''location'')])
      in append_nodes (make (js ''div'') (js ''item'') (Val JUndefined))
           ([make (js ''div'') (js ''role'')
               (Val (JStr (array_join (js '', '')
                  (filter truthy [getprop j (js ''role''), getprop j (js ''company'')]))))]
            @ (if meta \<noteq> [] then [make (js ''div'') (js ''meta'') (Val (JStr meta))] else [])
            @ highlights_list j))"

definition renderExperience :: "jsvalue \<Rightarrow> node option" where
  "renderExperience exp =
     (if \<not> isArray exp \<or> elements exp = [] then None
      else Some (new_section (js ''sec'')
                   (heading ''Employment history''
                    # map experience_item (filter truthy (elements exp)))))"

text \<open>
  A \<open>forEach\<close> whose callback reads a property of the element without testing it:
  it throws at an element that is \<open>null\<close>.
\<close>

fun for_each_item :: "(jsvalue \<Rightarrow> node) \<Rightarrow> jsvalue list \<Rightarrow> exn + node list" where
  "for_each_item f [] = Inr []"
| "for_each_item f (e # es) =
     (if nullish e then Inl TypeError
      else (case for_each_item f es of
              Inl x \<Rightarrow> Inl x
            | Inr ns \<Rightarrow> Inr (f e # ns)))"

definition education_item :: "jsvalue \<Rightarrow> node" where
  "education_item e =
     (let meta = array_join [32, 8226, 32]
                   (filter truthy [getprop e (js ''year''), getprop e (js ''location'')])
      in append_nodes (make (js ''div'') (js ''item'') (Val JUndefined))
           ([make (js ''div'') (js ''role'')
               (Val (JStr (array_join [32, 8212, 32]
                  (filter truthy [getprop e (js ''degree''), getprop e (js ''school'')]))))]
            @ (if meta \<noteq> [] then [make (js ''div'') (js ''meta'') (Val (JStr meta))] else [])
            @ (if truthy (getprop e (js ''note''))
               then [make (js ''div'') [] (Val (getprop e (js ''note'')))] else [])))"

definition renderEducation :: "jsvalue \<Rightarrow> exn + node option" where
  "renderEducation ed =
     (if \<not> isArray ed \<or> elements ed = [] then Inr None
      else (case for_each_item education_item (elements ed) of
              Inl x \<Rightarrow> Inl x
            | Inr items \<Rightarrow> Inr (Some (new_section (js ''sec'') (heading ''Education'' # items)))))"

definition renderSummary :: "jsvalue \<Rightarrow> node option" where
  "renderSummary txt =
     (if \<not> truthy txt then None
      else Some (new_section (js ''sec'')
                   [heading ''Professional summary'',
                    make (js ''div'') (js ''muted'') (Val txt)]))"

definition cert_item :: "jsvalue \<Rightarrow> node" where
  "cert_item c =
     (let meta = array_join [32, 8226, 32]
                   (filter truthy [getprop c (js ''issuer''), getprop c (js ''year'')])
      in append_nodes (make (js ''div'') (js ''item'') (Val JUndefined))
           ([make (js ''div'') (js ''role'') (Val (or_else (getprop c (js ''name'')) (JStr [])))]
            @ (if meta \<noteq> [] then [make (js ''div'') (js ''meta'') (Val (JStr meta))] else [])))"

definition renderCerts :: "jsvalue \<Rightarrow> exn + node option" where
  "renderCerts lst =
     (if \<not> isArray lst \<or> elements lst = [] then Inr None
      else (case for_each_item cert_item (elements lst) of
              Inl x \<Rightarrow> Inl x
            | Inr items \<Rightarrow>
                Inr (Some (new_section (js ''sec'') (heading ''Certifications'' # items)))))"

definition renderSkillsPills :: "jsvalue \<Rightarrow> node option" where
  "renderSkillsPills skills =
     (if \<not> isArray skills \<or> elements skills = [] then None
      else
        (let wrap = append_nodes (make (js ''div'') [] (Val JUndefined))
                      (map (\<lambda>it. make (js ''span'') (js ''pill'') (Val it))
                         (all_items (elements skills)))
         in Some (new_section (js ''sec skills-pills'') [heading ''Skills'', wrap])))"

definition renderHeaderT3 :: "jsvalue \<Rightarrow> exn + node" where
  "renderHeaderT3 d =
     (if nullish d then Inl TypeError
      else
        (let who = make (js ''div'') (js ''who'')
               (Nodes
                  [Some (make (js ''h1'') []
                           (Val (or_else (getprop d (js ''name'')) (JStr (js ''Your Name''))))),
                   Some (make (js ''div'') (js ''subline'')
                           (Val (JArr [JStr (array_join (js '', '')
                              (filter truthy [getprop d (js ''location''),
                                              getprop d (js ''phone''),
                                              getprop d (js ''email'')]))])))])
         in Inr (make (js ''div'') (js ''hdr'') (Nodes [Some who]))))"

definition experience_itemT3 :: "jsvalue \<Rightarrow> node" where
  "experience_itemT3 j =
     (let dur = array_join (js '' - '')
                  (filter truthy [getprop j (js ''start''), getprop j (js ''end'')]);
          roleLine = array_join (js '', '') (filter truthy [getprop j (js ''role''), JStr dur]);
          sub = array_join (js '', '')
                  (filter truthy [getprop j (js ''company''), getprop j (js ''location'')])
      in append_nodes (make (js ''div'') (js ''item'') (Val JUndefined))
           ((if roleLine \<noteq> [] then [make (js ''div'') (js ''role'') (Val (JStr roleLine))]
             else [])
            @ (if sub \<noteq> [] then [make (js ''div'') (js ''submeta'') (Val (JStr sub))] else [])
            @ highlights_list j))"

definition renderExperienceT3 :: "jsvalue \<Rightarrow> node option" where
  "renderExperienceT3 exp =
     (if \<not> isArray exp \<or> elements exp = [] then None
      else Some (new_section (js ''sec'')
                   (heading ''Employment history''
                    # map experience_itemT3 (filter truthy (elements exp)))))"

definition education_itemT3 :: "jsvalue \<Rightarrow> node" where
  "education_itemT3 e =
     (let hd_line = array_join (js '', '')
                      (filter truthy [getprop e (js ''degree''), getprop e (js ''year'')]);
          sub = array_join (js '', '')
                  (filter truthy [getprop e (js ''school''), getprop e (js ''location'')])
      in append_nodes (make (js ''div'') (js ''item'') (Val JUndefined))
           ((if hd_line \<noteq> [] then [make (js ''div'') (js ''role'') (Val (JStr hd_line))]
             else [])
            @ (if sub \<noteq> [] then [make (js ''div'') (js ''submeta'') (Val (JStr sub))] else [])
            @ (if truthy (getprop e (js ''note''))
               then [make (js ''div'') [] (Val (getprop e (js ''note'')))] else [])))"

definition renderEducationT3 :: "jsvalue \<Rightarrow> exn + node option" where
  "renderEducationT3 ed =
     (if \<not> isArray ed \<or> elements ed = [] then Inr None
      else (case for_each_item education_itemT3 (elements ed) of
              Inl x \<Rightarrow> Inl x
            | Inr items \<Rightarrow> Inr (Some (new_section (js ''sec'') (heading ''Education'' # items)))))"

section \<open>The themes and the page\<close>

definition renderResumeTheme1 :: "jsvalue \<Rightarrow> page \<Rightarrow> outcome \<times> page" where
  "renderResumeTheme1 d doc =
     (let doc1 = doc\<lparr>root_children := []\<rparr> in
      case renderHeader d of
        Inl e \<Rightarrow> (Raised e, doc1)
      | Inr hdr \<Rightarrow>
          (let doc2 = doc1\<lparr>root_children := root_children doc1 @ [hdr]\<rparr> in
           case renderEducation (getprop d (js ''education'')) of
             Inl e \<Rightarrow> (Raised e, doc2)
           | Inr ed \<Rightarrow>
               (case renderCerts (getprop d (js ''certifications'')) of
                  Inl e \<Rightarrow> (Raised e, doc2)
                | Inr ce \<Rightarrow>
                    (let sections = List.map_filter (\<lambda>n. n)
                           [renderSummary (getprop d (js ''summary'')),
                            renderSkills (getprop d (js ''skills'')),
                            renderExperience (getprop d (js ''experience'')),
                            ed, ce]
                     in (Completed, doc2\<lparr>root_children := root_children doc2 @ sections\<rparr>)))))"

definition renderResumeTheme2 :: "jsvalue \<Rightarrow> page \<Rightarrow> outcome \<times> page" where
  "renderResumeTheme2 d doc =
     (let doc1 = doc\<lparr>root_children := []\<rparr> in
      case renderHeader d of
        Inl e \<Rightarrow> (Raised e, doc1)
      | Inr hdr \<Rightarrow>
          (let doc2 = doc1\<lparr>root_children := root_children doc1 @ [hdr]\<rparr>;
               leftBlocks = List.map_filter (\<lambda>n. n) [renderSkillsPills (getprop d (js ''skills''))];
               aside = append_nodes (make (js ''aside'') (js ''aside'') (Val JUndefined)) leftBlocks
           in
           case renderEducation (getprop d (js ''education'')) of
             Inl e \<Rightarrow> (Raised e, doc2)
           | Inr ed \<Rightarrow>
               (case renderCerts (getprop d (js ''certifications'')) of
                  Inl e \<Rightarrow> (Raised e, doc2)
                | Inr ce \<Rightarrow>
                    (let rightBlocks = List.map_filter (\<lambda>n. n)
                           [renderSummary (getprop d (js ''summary'')),
                            renderExperience (getprop d (js ''experience'')),
                            ed, ce];
                         main = append_nodes (make (js ''div'') (js ''main'') (Val JUndefined))
                                  rightBlocks;
                         cols = append_nodes (make (js ''div'') (js ''columns'') (Val JUndefined))
                                  [aside, main];
                         body_sec = new_section (js ''sec'') [cols]
                     in (Completed, doc2\<lparr>root_children := root_children doc2 @ [body_sec]\<rparr>)))))"

definition renderResumeTheme3 :: "jsvalue \<Rightarrow> page \<Rightarrow> outcome \<times> page" where
  "renderResumeTheme3 d doc =
     (let doc1 = doc\<lparr>root_children := []\<rparr> in
      case renderHeaderT3 d of
        Inl e \<Rightarrow> (Raised e, doc1)
      | Inr hdr \<Rightarrow>
          (let doc2 = doc1\<lparr>root_children := root_children doc1 @ [hdr]\<rparr> in
           case renderEducationT3 (getprop d (js ''education'')) of
             Inl e \<Rightarrow> (Raised e, doc2)
           | Inr ed \<Rightarrow>
               (case renderCerts (getprop d (js ''certifications'')) of
                  Inl e \<Rightarrow> (Raised e, doc2)
                | Inr ce \<Rightarrow>
                    (let sections = List.map_filter (\<lambda>n. n)
                           [renderSummary (getprop d (js ''summary'')),
                            renderSkills (getprop d (js ''skills'')),
                            renderExperienceT3 (getprop d (js ''experience'')),
                            ed, ce]
                     in (Completed, doc2\<lparr>root_children := root_children doc2 @ sections\<rparr>)))))"

text \<open>
  The theme of \<open>renderResume\<close>:
  \<open>(d && d.theme) || urlParams.get('theme') || 't1'\<close>, then the function \<open>norm\<close>.
\<close>

definition theme_raw :: "platform \<Rightarrow> jsvalue \<Rightarrow> jsvalue" where
  "theme_raw env d =
     or_else
       (or_else (if truthy d then getprop d (js ''theme'') else d)
                (case url_theme env of None \<Rightarrow> JNull | Some q \<Rightarrow> JStr q))
       (JStr (js ''t1''))"

definition theme_norm :: "jsvalue \<Rightarrow> jsvalue" where
  "theme_norm t = (if \<not> truthy t then JStr (js ''t1'') else t)"

definition renderResume :: "platform \<Rightarrow> jsvalue \<Rightarrow> page \<Rightarrow> outcome \<times> page" where
  "renderResume env d doc =
     (let th = theme_raw env d;
          norm = theme_norm th;
          doc1 = doc\<lparr>root_class := js ''resume theme-'' @ ToString norm\<rparr>
      in if norm = JStr (js ''t2'') then renderResumeTheme2 d doc1
         else if norm = JStr (js ''t3'') then renderResumeTheme3 d doc1
         else renderResumeTheme1 d doc1)"

text \<open>\<open>if (devNote) devNote.hidden = b\<close> of \<open>src/assets/app.js\<close>.\<close>

definition set_note_hidden :: "bool \<Rightarrow> page \<Rightarrow> page" where
  "set_note_hidden b doc = doc\<lparr>note_hidden := map_option (\<lambda>h. b) (note_hidden doc)\<rparr>"

text \<open>The \<open>try\<close> block of \<open>bootstrap\<close> in \<open>src/assets/app.js\<close>, and \<open>bootstrap\<close> with its \<open>catch\<close>.\<close>

definition bootstrap_try :: "platform \<Rightarrow> page \<Rightarrow> outcome \<times> page" where
  "bootstrap_try env doc =
     (case loadResumeData env of
        Inl e \<Rightarrow> (Raised e, doc)
      | Inr data \<Rightarrow>
          if truthy data then
            (case renderResume env data doc of
               (Raised e, doc') \<Rightarrow> (Raised e, doc')
             | (Completed, doc') \<Rightarrow> (Completed, set_note_hidden True doc'))
          else (Completed, set_note_hidden False doc))"

definition bootstrap :: "platform \<Rightarrow> page \<Rightarrow> outcome \<times> page" where
  "bootstrap env doc =
     (case bootstrap_try env doc of
        (Raised e, doc') \<Rightarrow> (Completed, set_note_hidden False doc')
      | (Completed, doc') \<Rightarrow> (Completed, doc'))"

text \<open>
  \<open>devNote.hidden = b\<close> of \<open>src/unnamed/part_000\<close>, which does not test \<open>devNote\<close>, and its
  \<open>bootstrap\<close>, which has no \<open>try\<close>.
\<close>

definition assign_note_hidden :: "bool \<Rightarrow> page \<Rightarrow> outcome \<times> page" where
  "assign_note_hidden b doc =
     (case note_hidden doc of
        None \<Rightarrow> (Raised TypeError, doc)
      | Some h \<Rightarrow> (Completed, doc\<lparr>note_hidden := Some b\<rparr>))"

definition bootstrap_part000 :: "platform \<Rightarrow> page \<Rightarrow> outcome \<times> page" where
  "bootstrap_part000 env doc =
     (case loadResumeData_part000 env of
        Inl e \<Rightarrow> (Raised e, doc)
      | Inr data \<Rightarrow>
          if truthy data then
            (case renderResume env data doc of
               (Raised e, doc') \<Rightarrow> (Raised e, doc')
             | (Completed, doc') \<Rightarrow> assign_note_hidden True doc')
          else assign_note_hidden False doc)"

section \<open>Notions of the specification\<close>

subsection \<open>Candidates that fail, files that hold a document\<close>

text \<open>The fetch of a candidate returns a response whose status is not a success.\<close>

definition non_success :: "platform \<Rightarrow> jstring \<Rightarrow> bool" where
  "non_success env p = (case fetch env p of Inl e \<Rightarrow> False | Inr res \<Rightarrow> \<not> ok res)"

text \<open>The candidate file exists and its text is valid JSON, with parsed content \<open>v\<close>.\<close>

definition holds_valid_json :: "platform \<Rightarrow> jstring \<Rightarrow> jsvalue \<Rightarrow> bool" where
  "holds_valid_json env p v =
     (case fetch env p of
        Inl e \<Rightarrow> False
      | Inr res \<Rightarrow>
          ok res \<and> (case body res of Inl e \<Rightarrow> False | Inr txt \<Rightarrow> JSON_parse env txt = Inr v))"

text \<open>
  The candidate file exists and holds a JSON object or array: its text, trimmed, starts
  with a brace or a bracket and parses to the truthy value \<open>v\<close>.
\<close>

definition holds_json_container :: "platform \<Rightarrow> jstring \<Rightarrow> jsvalue \<Rightarrow> bool" where
  "holds_json_container env p v =
     (case fetch env p of
        Inl e \<Rightarrow> False
      | Inr res \<Rightarrow>
          ok res \<and>
          (case body res of
             Inl e \<Rightarrow> False
           | Inr txt \<Rightarrow>
               (startsWith (trim txt) (js ''{'') \<or> startsWith (trim txt) (js ''['')) \<and>
               JSON_parse env (trim txt) = Inr v \<and> truthy v))"

text \<open>
  The failures of a candidate: the text cannot be parsed (the JSON parser throws at a
  \<open>.json\<close> candidate or at a text that looks like JSON; elsewhere the YAML parser throws
  or is not loaded), the fetch is rejected (a network error), the status is not a success,
  or the body cannot be read.
\<close>

definition parse_fails :: "platform \<Rightarrow> jstring \<Rightarrow> jstring \<Rightarrow> bool" where
  "parse_fails env p txt =
     (if endsWith p (js ''.json'') then isl (JSON_parse env txt)
      else (case parseMaybeJSON env txt of
              Inl e \<Rightarrow> True
            | Inr m \<Rightarrow> \<not> truthy m \<and>
                (case jsyaml_load env of None \<Rightarrow> True | Some load \<Rightarrow> isl (load txt))))"

definition candidate_fails :: "platform \<Rightarrow> jstring \<Rightarrow> bool" where
  "candidate_fails env p =
     (case fetch env p of
        Inl e \<Rightarrow> True
      | Inr res \<Rightarrow>
          \<not> ok res \<or> (case body res of Inl e \<Rightarrow> True | Inr txt \<Rightarrow> parse_fails env p txt))"

subsection \<open>Example sites\<close>

text \<open>
  A site serves the files it has and answers 404 for every other path. The examples use no
  YAML library and a JSON parser that knows the few texts the examples serve, where it
  returns what \<open>JSON.parse\<close> returns.
\<close>

definition doc_A :: jstring where
  \<open>doc_A = js ''{"name":"A"}''\<close>

definition doc_B :: jstring where
  \<open>doc_B = js ''{"name":"B"}''\<close>

definition doc_null_entry :: jstring where
  \<open>doc_null_entry = js ''{"name":"A","education":[null]}''\<close>

definition record_A :: jsvalue where
  "record_A = JObj [(js ''name'', JStr (js ''A''))]"

definition record_B :: jsvalue where
  "record_B = JObj [(js ''name'', JStr (js ''B''))]"

definition record_null_entry :: jsvalue where
  "record_null_entry = JObj [(js ''name'', JStr (js ''A'')), (js ''education'', JArr [JNull])]"

definition example_parse :: "jstring \<Rightarrow> exn + jsvalue" where
  "example_parse t =
     (if t = doc_A then Inr record_A
      else if t = doc_B then Inr record_B
      else if t = doc_null_entry then Inr record_null_entry
      else if t = js ''42'' then Inr (JNum (js ''42''))
      else if t = js ''null'' then Inr JNull
      else Inl SyntaxError)"

definition serve :: "(jstring \<times> jstring) list \<Rightarrow> jstring \<Rightarrow> exn + response" where
  "serve files p =
     (case map_of files p of
        Some txt \<Rightarrow> Inr (Response True (Inr txt))
      | None \<Rightarrow> Inr (Response False (Inr (js ''Not Found''))))"

definition site :: "(jstring \<times> jstring) list \<Rightarrow> jstring option \<Rightarrow> platform" where
  "site files q =
     \<lparr>fetch = serve files, JSON_parse = example_parse, jsyaml_load = None, url_theme = q\<rparr>"

definition page0 :: page where
  "page0 = \<lparr>root_class = [], root_children = [], note_hidden = Some True\<rparr>"

definition site_scalar_yaml :: platform where
  "site_scalar_yaml = site [(js ''resume.yaml'', js ''42'')] None"

definition site_yaml_only :: platform where
  "site_yaml_only = site [(js ''resume.yaml'', doc_A)] None"

definition site_null_json :: platform where
  "site_null_json = site [(js ''resume.json'', js ''null'')] None"

definition site_two_files :: platform where
  "site_two_files = site [(js ''resume.json'', doc_A), (js ''resume.yaml'', doc_B)] None"

definition site_malformed_json :: platform where
  "site_malformed_json = site [(js ''resume.json'', js ''{oops''), (js ''resume.yaml'', doc_A)] None"

definition site_null_entry :: platform where
  "site_null_entry = site [(js ''resume.json'', doc_null_entry)] None"

subsection \<open>Records\<close>

text \<open>The record as it would be without its \<open>theme\<close> field.\<close>

fun without_theme :: "jsvalue \<Rightarrow> jsvalue" where
  "without_theme (JObj kvs) = JObj (filter (\<lambda>kv. fst kv \<noteq> js ''theme'') kvs)"
| "without_theme v = v"

text \<open>
  A record the renderer can walk through: it is not \<open>null\<close>, and no entry of its lists of
  links, education and certifications is \<open>null\<close>.
\<close>

definition no_null_entries :: "jsvalue \<Rightarrow> bool" where
  "no_null_entries v = list_all (\<lambda>x. \<not> nullish x) (elements v)"

definition renderable :: "jsvalue \<Rightarrow> bool" where
  "renderable d \<longleftrightarrow>
     \<not> nullish d \<and> no_null_entries (getprop d (js ''links''))
     \<and> no_null_entries (getprop d (js ''education''))
     \<and> no_null_entries (getprop d (js ''certifications''))"

definition record_with_theme :: "string \<Rightarrow> jsvalue" where
  "record_with_theme t = JObj [(js ''name'', JStr (js ''A'')), (js ''theme'', JStr (js t))]"

subsection \<open>Lists without repetition\<close>

text \<open>
  The occurrences in \<open>xs\<close> of the values that are neither in \<open>seen\<close> nor earlier in
  \<open>xs\<close>, in the order of \<open>xs\<close>; with nothing seen, the first occurrence of every value.
\<close>

definition fresh_occurrences :: "'a list \<Rightarrow> 'a list \<Rightarrow> 'a list" where
  "fresh_occurrences seen xs =
     map (\<lambda>i. xs ! i)
       (filter (\<lambda>i. xs ! i \<notin> set seen \<union> set (take i xs)) [0..<length xs])"

definition first_occurrences :: "'a list \<Rightarrow> 'a list" where
  "first_occurrences xs = fresh_occurrences [] xs"

text \<open>A skills category of the data model: an object whose \<open>items\<close> are the strings \<open>its\<close>.\<close>

definition is_skill :: "jsvalue \<Rightarrow> jstring list \<Rightarrow> bool" where
  "is_skill s its \<longleftrightarrow> truthy s \<and> getprop s (js ''items'') = JArr (map JStr its)"

definition skills_example :: jsvalue where
  "skills_example =
     JArr [JObj [(js ''items'', JArr [JStr (js ''Go''), JStr (js ''Go''), JStr (js ''Rust'')])],
           JObj [(js ''items'', JArr [JStr (js ''Rust'')])]]"

definition skills_with_categories :: "jsvalue list" where
  "skills_with_categories =
     [JObj [(js ''category'', JStr (js ''Languages'')),
            (js ''items'', JArr [JStr (js ''Go''), JStr (js ''Go''), JStr (js ''Rust'')])],
      JObj [(js ''category'', JStr (js ''Systems'')),
            (js ''items'', JArr [JStr (js ''Rust''), JStr (js ''Linux'')])]]"

subsection \<open>The sections of a page\<close>

text \<open>
  A section node is a \<open>section\<close> element that starts with its heading, an \<open>h2\<close> element;
  the text of the heading is the title of the section. \<open>page_sections\<close> lists the titles
  of all section nodes of the container, at any depth, in document order.
\<close>

fun h2_title :: "node \<Rightarrow> jstring option" where
  "h2_title (Elem tag cls as [RawHtml t]) = (if tag = js ''h2'' then Some t else None)"
| "h2_title n = None"

definition section_title :: "node \<Rightarrow> jstring option" where
  "section_title n =
     (case n of
        Elem tag cls as (h # rest) \<Rightarrow> if tag = js ''section'' then h2_title h else None
      | _ \<Rightarrow> None)"

fun section_titles :: "node \<Rightarrow> jstring list" where
  "section_titles (Elem tag cls as cs) =
     (case section_title (Elem tag cls as cs) of Some t \<Rightarrow> [t] | None \<Rightarrow> [])
     @ concat (map section_titles cs)"
| "section_titles n = []"

definition page_sections :: "page \<Rightarrow> jstring list" where
  "page_sections doc = concat (map section_titles (root_children doc))"

text \<open>
  The sections a record has content for, in the order of the single-column themes and in
  the order of the two-column theme.
\<close>

definition has_entries :: "jsvalue \<Rightarrow> bool" where
  "has_entries v \<longleftrightarrow> isArray v \<and> elements v \<noteq> []"

definition titled :: "bool \<Rightarrow> string \<Rightarrow> jstring list" where
  "titled present title = (if present then [js title] else [])"

definition expected_sections :: "jsvalue \<Rightarrow> jstring list" where
  "expected_sections d =
     titled (truthy (getprop d (js ''summary''))) ''Professional summary''
     @ titled (has_entries (getprop d (js ''skills''))) ''Skills''
     @ titled (has_entries (getprop d (js ''experience''))) ''Employment history''
     @ titled (has_entries (getprop d (js ''education''))) ''Education''
     @ titled (has_entries (getprop d (js ''certifications''))) ''Certifications''"

definition expected_sections_theme2 :: "jsvalue \<Rightarrow> jstring list" where
  "expected_sections_theme2 d =
     titled (has_entries (getprop d (js ''skills''))) ''Skills''
     @ titled (truthy (getprop d (js ''summary''))) ''Professional summary''
     @ titled (has_entries (getprop d (js ''experience''))) ''Employment history''
     @ titled (has_entries (getprop d (js ''education''))) ''Education''
     @ titled (has_entries (getprop d (js ''certifications''))) ''Certifications''"

definition opt_titles :: "node option \<Rightarrow> jstring list" where
  "opt_titles r = (case r of None \<Rightarrow> [] | Some n \<Rightarrow> section_titles n)"

text \<open>
  The condition of the specification on the backing field of a section: it is absent, or
  an empty list.
\<close>

definition absent_or_empty :: "jsvalue \<Rightarrow> bool" where
  "absent_or_empty v \<longleftrightarrow> v = JUndefined \<or> v = JArr []"

text \<open>
  The condition under which the summary, which is text, has no content: it is absent, or
  the empty string. (An empty list is not such a value: it is truthy.)
\<close>

definition absent_or_blank :: "jsvalue \<Rightarrow> bool" where
  "absent_or_blank v \<longleftrightarrow> v = JUndefined \<or> v = JStr []"

definition record_summary_list :: jsvalue where
  "record_summary_list = JObj [(js ''summary'', JArr [])]"

definition record_summary_education :: jsvalue where
  "record_summary_education =
     JObj [(js ''summary'', JStr (js ''Engineer'')),
           (js ''skills'', JArr []),
           (js ''education'', JArr [JObj [(js ''degree'', JStr (js ''BSc''))]])]"

text \<open>The header of a record, where \<open>renderHeader\<close> returns one.\<close>

definition the_header :: "jsvalue \<Rightarrow> node" where
  "the_header d = (case renderHeader d of Inr h \<Rightarrow> h | Inl e \<Rightarrow> TextNode [])"

subsection \<open>The contact line\<close>













section \<open>The loader: what it returns\<close>

lemmas example_defs =
  site_def serve_def example_parse_def doc_A_def doc_B_def doc_null_entry_def js_def
  site_scalar_yaml_def site_yaml_only_def site_null_json_def site_two_files_def
  site_malformed_json_def site_null_entry_def
  record_A_def record_B_def record_null_entry_def

lemmas loader_defs =
  loadResumeData_def loadResumeData_part000_def candidates_def candidates_part000_def
  load_body_def load_try_def tryFetch_def tryFetch_try_def parseMaybeJSON_def
  trim_def startsWith_def endsWith_def isWhiteSpace_def
  non_success_def holds_valid_json_def holds_json_container_def
  candidate_fails_def parse_fails_def

lemma load_body_total: "load_body env p \<noteq> Inl e"
  by (simp add: load_body_def split: option.splits sum.splits)

text \<open>A turn of the loop goes on to the next candidate exactly when the candidate fails.\<close>

lemma load_body_Continue_iff: "load_body env p = Inr Continue \<longleftrightarrow> candidate_fails env p"
  by (auto simp: load_body_def candidate_fails_def parse_fails_def tryFetch_def
        tryFetch_try_def load_try_def isl_def split: option.splits sum.splits if_splits)

lemma load_loop_never_raises: "load_loop env ps \<noteq> Inl e"
  by (induction ps) (auto simp: load_body_total split: sum.splits completion.splits)

lemma load_loop_skip:
  "list_all (candidate_fails env) pre \<Longrightarrow> load_loop env (pre @ ps) = load_loop env ps"
  by (induction pre) (simp_all add: load_body_Continue_iff [symmetric])

lemma load_loop_exhausted:
  "list_all (candidate_fails env) ps \<Longrightarrow> load_loop env ps = Inr JNull"
  using load_loop_skip [of env ps "[]"] by simp

lemma non_success_fails: "non_success env p \<Longrightarrow> candidate_fails env p"
  by (auto simp: non_success_def candidate_fails_def split: sum.splits)

lemma load_loop_null_only:
  "load_loop env ps = Inr JNull \<Longrightarrow>
     list_all (candidate_fails env) ps \<or>
     list_ex (\<lambda>p. load_body env p = Inr (Return JNull)) ps"
  by (induction ps) (auto simp: load_body_Continue_iff split: sum.splits completion.splits)

lemma load_json_ext:
  "holds_valid_json env p v \<Longrightarrow> endsWith p (js ''.json'') \<Longrightarrow>
   load_body env p = Inr (Return v)"
  by (auto simp: holds_valid_json_def load_body_def tryFetch_def tryFetch_try_def load_try_def
      split: sum.splits)

lemma load_container:
  "holds_json_container env p v \<Longrightarrow> \<not> endsWith p (js ''.json'') \<Longrightarrow>
   load_body env p = Inr (Return v)"
  by (auto simp: holds_json_container_def load_body_def tryFetch_def tryFetch_try_def
      load_try_def parseMaybeJSON_def Let_def split: sum.splits)

text \<open>
  C1, as the specification states it, fails: a file at a YAML candidate whose text is the
  valid JSON document \<open>42\<close> does not look like JSON to \<open>parseMaybeJSON\<close> (it starts
  with neither a brace nor a bracket), and without a YAML parser the candidate is skipped.
  The two candidates before it and the three after it answer 404, and the loader returns
  \<open>null\<close>, not the parsed content 42.
\<close>

theorem scalar_json_at_yaml_candidate_is_skipped:
  "candidates =
     [js ''resume.json'', js ''/resume.json''] @ js ''resume.yaml''
       # [js ''/resume.yaml'', js ''resume.yml'', js ''/resume.yml'']
   \<and> list_all (non_success site_scalar_yaml) [js ''resume.json'', js ''/resume.json'']
   \<and> list_all (non_success site_scalar_yaml)
         [js ''/resume.yaml'', js ''resume.yml'', js ''/resume.yml'']
   \<and> holds_valid_json site_scalar_yaml (js ''resume.yaml'') (JNum (js ''42''))
   \<and> loadResumeData site_scalar_yaml = Inr JNull
   \<and> loadResumeData site_scalar_yaml \<noteq> Inr (JNum (js ''42''))"
  by (simp add: example_defs loader_defs)

text \<open>
  C1 (amended): for every candidate list in which a candidate file exists and contains
  valid JSON, every earlier candidate's fetch returns a non-success status, and the file
  either has the extension \<open>.json\<close> or holds a JSON object or array (its trimmed text
  starts with a brace or a bracket and parses to that same truthy value), the loader
  returns that file's parsed content, whatever the position of the file in the list.
\<close>

theorem loader_returns_the_json_document:
  assumes "list_all (non_success env) pre"
    and "holds_valid_json env p v"
    and "endsWith p (js ''.json'') \<or> holds_json_container env p v"
  shows "load_loop env (pre @ p # post) = Inr v
         \<and> (candidates = pre @ p # post \<longrightarrow> loadResumeData env = Inr v)"
proof -
  have "list_all (candidate_fails env) pre"
    using assms(1) by (induction pre) (simp_all add: non_success_fails)
  then have "load_loop env (pre @ p # post) = load_loop env (p # post)"
    by (rule load_loop_skip)
  moreover have "load_body env p = Inr (Return v)"
    using assms(2,3) load_json_ext [of env p v] load_container [of env p v] by blast
  ultimately have "load_loop env (pre @ p # post) = Inr v" by simp
  then show ?thesis by (auto simp: loadResumeData_def)
qed

theorem loader_returns_the_json_document_witness:
  "list_all (non_success site_yaml_only) [js ''resume.json'', js ''/resume.json'']
   \<and> holds_valid_json site_yaml_only (js ''resume.yaml'') record_A
   \<and> holds_json_container site_yaml_only (js ''resume.yaml'') record_A
   \<and> loadResumeData site_yaml_only = Inr record_A"
proof -
  have h1: "list_all (non_success site_yaml_only) [js ''resume.json'', js ''/resume.json'']"
    by (simp add: example_defs loader_defs)
  have h2: "holds_valid_json site_yaml_only (js ''resume.yaml'') record_A"
    by (simp add: example_defs loader_defs)
  have h3: "holds_json_container site_yaml_only (js ''resume.yaml'') record_A"
    by (simp add: example_defs loader_defs)
  have c: "candidates = [js ''resume.json'', js ''/resume.json''] @ js ''resume.yaml''
             # [js ''/resume.yaml'', js ''resume.yml'', js ''/resume.yml'']"
    by (simp add: candidates_def)
  have "loadResumeData site_yaml_only = Inr record_A"
    using loader_returns_the_json_document [OF h1 h2 disjI2 [OF h3]] c by blast
  with h1 h2 h3 show ?thesis by simp
qed

text \<open>
  C2, as the specification states it, fails in its "only when": a \<open>resume.json\<close> whose
  text is the valid JSON document \<open>null\<close> is fetched and parsed without any failure, and
  the loader returns its content, \<open>null\<close>, although not every candidate has failed.
\<close>

theorem null_document_is_returned_without_failure:
  "loadResumeData site_null_json = Inr JNull
   \<and> \<not> candidate_fails site_null_json (js ''resume.json'')
   \<and> \<not> list_all (candidate_fails site_null_json) candidates"
  by (simp add: example_defs loader_defs)

text \<open>
  C2 (amended): each per-candidate failure (network error, non-success status, unreadable
  body, or parse failure such as malformed JSON at a \<open>.json\<close> candidate) is non-fatal:
  the loader (of either copy) goes on to the next candidate and never raises to its caller.
  When every candidate has failed it returns \<open>null\<close>, as a return value; and it returns
  \<open>null\<close> in no other case than that one or a candidate whose content parses to
  \<open>null\<close>.
\<close>

theorem loader_skips_failures_and_never_raises:
  "loadResumeData env \<noteq> Inl e \<and> loadResumeData_part000 env \<noteq> Inl e
   \<and> (candidate_fails env p \<longrightarrow> load_loop env (p # ps) = load_loop env ps)
   \<and> (fetch env p = Inr (Response True (Inr txt)) \<and> endsWith p (js ''.json'')
        \<and> JSON_parse env txt = Inl x \<longrightarrow> load_loop env (p # ps) = load_loop env ps)
   \<and> (list_all (candidate_fails env) candidates \<longrightarrow> loadResumeData env = Inr JNull)
   \<and> (list_all (candidate_fails env) candidates_part000 \<longrightarrow>
        loadResumeData_part000 env = Inr JNull)
   \<and> (loadResumeData env = Inr JNull \<longrightarrow>
        list_all (candidate_fails env) candidates \<or>
        list_ex (\<lambda>q. load_body env q = Inr (Return JNull)) candidates)
   \<and> (loadResumeData_part000 env = Inr JNull \<longrightarrow>
        list_all (candidate_fails env) candidates_part000 \<or>
        list_ex (\<lambda>q. load_body env q = Inr (Return JNull)) candidates_part000)"
proof -
  have advance: "load_loop env (p # ps) = load_loop env ps" if "candidate_fails env p"
    using that by (simp add: load_body_Continue_iff [symmetric])
  have malformed: "candidate_fails env p"
    if "fetch env p = Inr (Response True (Inr txt))" "endsWith p (js ''.json'')"
      "JSON_parse env txt = Inl x"
    using that by (simp add: candidate_fails_def parse_fails_def)
  show ?thesis
    unfolding loadResumeData_def loadResumeData_part000_def
    using advance malformed load_loop_never_raises [of env candidates e]
      load_loop_never_raises [of env candidates_part000 e]
      load_loop_exhausted [of env candidates] load_loop_exhausted [of env candidates_part000]
      load_loop_null_only [of env candidates] load_loop_null_only [of env candidates_part000]
    by blast
qed

theorem loader_skips_failures_and_never_raises_witness:
  "loadResumeData site_malformed_json \<noteq> Inl SyntaxError
   \<and> candidate_fails site_malformed_json (js ''resume.json'')
   \<and> fetch site_malformed_json (js ''resume.json'') = Inr (Response True (Inr (js ''{oops'')))
   \<and> JSON_parse site_malformed_json (js ''{oops'') = Inl SyntaxError
   \<and> load_loop site_malformed_json (js ''resume.json'' # tl candidates)
       = load_loop site_malformed_json (tl candidates)
   \<and> loadResumeData site_malformed_json = Inr record_A
   \<and> list_all (candidate_fails (site [] None)) candidates
   \<and> list_all (candidate_fails (site [] None)) candidates_part000
   \<and> loadResumeData (site [] None) = Inr JNull
   \<and> loadResumeData_part000 (site [] None) = Inr JNull"
proof -
  have f: "candidate_fails site_malformed_json (js ''resume.json'')"
    by (simp add: example_defs loader_defs)
  have g: "fetch site_malformed_json (js ''resume.json'') = Inr (Response True (Inr (js ''{oops'')))"
    "JSON_parse site_malformed_json (js ''{oops'') = Inl SyntaxError"
    by (simp_all add: example_defs)
  have a: "list_all (candidate_fails (site [] None)) candidates"
    by (simp add: example_defs loader_defs)
  have b: "list_all (candidate_fails (site [] None)) candidates_part000"
    by (simp add: example_defs loader_defs)
  have r: "loadResumeData site_malformed_json = Inr record_A"
    by (simp add: example_defs loader_defs)
  note t1 = loader_skips_failures_and_never_raises
    [of site_malformed_json SyntaxError "js ''resume.json''" "tl candidates" "js ''{oops''" SyntaxError]
  note t2 = loader_skips_failures_and_never_raises [of "site [] None"]
  from t1 f have "loadResumeData site_malformed_json \<noteq> Inl SyntaxError"
    and "load_loop site_malformed_json (js ''resume.json'' # tl candidates)
       = load_loop site_malformed_json (tl candidates)"
    by blast+
  moreover from t2 a b have "loadResumeData (site [] None) = Inr JNull"
    and "loadResumeData_part000 (site [] None) = Inr JNull"
    by blast+
  ultimately show ?thesis using f g a b r by simp
qed

text \<open>
  C10, as stated, fails: the two copies run their loops over different lists. With both
  \<open>resume.json\<close> and \<open>resume.yaml\<close> on the site, \<open>src/assets/app.js\<close> returns the
  first and \<open>src/unnamed/part_000\<close> the second.
\<close>

theorem loaders_differ_on_two_files:
  "loadResumeData site_two_files = Inr record_A
   \<and> loadResumeData_part000 site_two_files = Inr record_B
   \<and> loadResumeData site_two_files \<noteq> loadResumeData_part000 site_two_files"
  by (simp add: example_defs loader_defs)

text \<open>
  C10 (amended): the two loaders run the same loop over different candidate lists
  (\<open>candidates\<close> and \<open>candidates_part000\<close>), so they are not extensionally equal; they
  return the same result in every environment in which the three candidates that start
  with a slash fail and at most one of \<open>resume.json\<close>, \<open>resume.yaml\<close> and
  \<open>resume.yml\<close> does not fail.
\<close>

theorem loaders_agree_on_at_most_one_relative_file:
  assumes "candidate_fails env (js ''/resume.json'')"
    and "candidate_fails env (js ''/resume.yaml'')"
    and "candidate_fails env (js ''/resume.yml'')"
    and "(candidate_fails env (js ''resume.json'') \<and> candidate_fails env (js ''resume.yaml''))
       \<or> (candidate_fails env (js ''resume.json'') \<and> candidate_fails env (js ''resume.yml''))
       \<or> (candidate_fails env (js ''resume.yaml'') \<and> candidate_fails env (js ''resume.yml''))"
  shows "loadResumeData env = loadResumeData_part000 env"
  using assms
  by (auto simp: loadResumeData_def loadResumeData_part000_def candidates_def
        candidates_part000_def load_body_Continue_iff [symmetric] load_body_total
        split: sum.splits completion.splits)

theorem loaders_agree_on_at_most_one_relative_file_witness:
  "candidate_fails site_yaml_only (js ''/resume.json'')
   \<and> candidate_fails site_yaml_only (js ''/resume.yaml'')
   \<and> candidate_fails site_yaml_only (js ''/resume.yml'')
   \<and> candidate_fails site_yaml_only (js ''resume.json'')
   \<and> candidate_fails site_yaml_only (js ''resume.yml'')
   \<and> \<not> candidate_fails site_yaml_only (js ''resume.yaml'')
   \<and> loadResumeData site_yaml_only = loadResumeData_part000 site_yaml_only
   \<and> loadResumeData_part000 site_yaml_only = Inr record_A"
proof -
  have f: "candidate_fails site_yaml_only (js ''/resume.json'')"
    "candidate_fails site_yaml_only (js ''/resume.yaml'')"
    "candidate_fails site_yaml_only (js ''/resume.yml'')"
    "candidate_fails site_yaml_only (js ''resume.json'')"
    "candidate_fails site_yaml_only (js ''resume.yml'')"
    "\<not> candidate_fails site_yaml_only (js ''resume.yaml'')"
    by (simp_all add: example_defs loader_defs)
  have v: "loadResumeData_part000 site_yaml_only = Inr record_A"
    by (simp add: example_defs loader_defs)
  have "loadResumeData site_yaml_only = loadResumeData_part000 site_yaml_only"
    using f by (intro loaders_agree_on_at_most_one_relative_file) simp_all
  with f v show ?thesis by simp
qed

section \<open>The theme\<close>

lemma js_eq_iff [simp]: "js a = js b \<longleftrightarrow> a = b"
  by (simp add: js_def inj_map_eq_map [OF inj_of_char])

lemma js_Nil_iff [simp]: "js a = [] \<longleftrightarrow> a = []" "[] = js a \<longleftrightarrow> a = []"
  by (auto simp: js_def)

lemma js_append: "js a @ js b = js (a @ b)"
  by (simp add: js_def)



lemma theme_without_record:
  "\<not> truthy (getprop d (js ''theme'')) \<Longrightarrow>
   theme_norm (theme_raw env d) =
     (case url_theme env of
        None \<Rightarrow> JStr (js ''t1'')
      | Some q \<Rightarrow> if q = [] then JStr (js ''t1'') else JStr q)"
  by (cases "truthy d") (auto simp: theme_norm_def theme_raw_def or_else_def split: option.splits)



lemma for_each_item_ok:
  "list_all (\<lambda>x. \<not> nullish x) es \<Longrightarrow> for_each_item f es = Inr (map f es)"
  by (induction es) simp_all

lemma link_bits_ok: "list_all (\<lambda>x. \<not> nullish x) ls \<Longrightarrow> \<exists>bs. link_bits ls = Inr bs"
  by (induction ls) auto

lemma renderHeader_ok:
  "\<not> nullish d \<Longrightarrow> no_null_entries (getprop d (js ''links'')) \<Longrightarrow> \<exists>h. renderHeader d = Inr h"
  using link_bits_ok [of "elements (getprop d (js ''links''))"]
  by (auto simp: renderHeader_def contact_bits_def Let_def no_null_entries_def)

lemma renderEducation_ok: "no_null_entries ed \<Longrightarrow> \<exists>r. renderEducation ed = Inr r"
  by (simp add: renderEducation_def no_null_entries_def for_each_item_ok)

lemma renderCerts_ok: "no_null_entries c \<Longrightarrow> \<exists>r. renderCerts c = Inr r"
  by (simp add: renderCerts_def no_null_entries_def for_each_item_ok)

lemma renderResumeTheme1_ok: "renderable d \<Longrightarrow> fst (renderResumeTheme1 d doc) = Completed"
  using renderHeader_ok [of d] renderEducation_ok [of "getprop d (js ''education'')"]
    renderCerts_ok [of "getprop d (js ''certifications'')"]
  by (auto simp: renderable_def renderResumeTheme1_def Let_def)



lemma map_of_without:
  "map_of (filter (\<lambda>kv. fst kv \<noteq> t) kvs) k = (if k = t then None else map_of kvs k)"
  by (induction kvs) auto

lemma getprop_without_theme:
  "getprop (without_theme d) k = (if k = js ''theme'' then JUndefined else getprop d k)"
  by (cases d) (simp_all add: map_of_without)

lemma nullish_without_theme: "nullish (without_theme d) = nullish d"
  by (cases d) simp_all

lemma getprop_without_theme_other:
  "getprop (without_theme d) (js ''name'') = getprop d (js ''name'')"
  "getprop (without_theme d) (js ''title'') = getprop d (js ''title'')"
  "getprop (without_theme d) (js ''location'') = getprop d (js ''location'')"
  "getprop (without_theme d) (js ''phone'') = getprop d (js ''phone'')"
  "getprop (without_theme d) (js ''email'') = getprop d (js ''email'')"
  "getprop (without_theme d) (js ''links'') = getprop d (js ''links'')"
  "getprop (without_theme d) (js ''summary'') = getprop d (js ''summary'')"
  "getprop (without_theme d) (js ''skills'') = getprop d (js ''skills'')"
  "getprop (without_theme d) (js ''experience'') = getprop d (js ''experience'')"
  "getprop (without_theme d) (js ''education'') = getprop d (js ''education'')"
  "getprop (without_theme d) (js ''certifications'') = getprop d (js ''certifications'')"
  by (simp_all add: getprop_without_theme)

lemma renderHeader_without: "renderHeader (without_theme d) = renderHeader d"
  unfolding renderHeader_def header_who_def contact_bits_def getprop_without_theme_other
    nullish_without_theme
  by (rule refl)

lemma renderHeaderT3_without: "renderHeaderT3 (without_theme d) = renderHeaderT3 d"
  unfolding renderHeaderT3_def getprop_without_theme_other nullish_without_theme by (rule refl)

lemma renderResumeTheme1_without:
  "renderResumeTheme1 (without_theme d) doc = renderResumeTheme1 d doc"
  unfolding renderResumeTheme1_def getprop_without_theme_other renderHeader_without
  by (rule refl)

lemma renderResumeTheme2_without:
  "renderResumeTheme2 (without_theme d) doc = renderResumeTheme2 d doc"
  unfolding renderResumeTheme2_def getprop_without_theme_other renderHeader_without
  by (rule refl)

lemma renderResumeTheme3_without:
  "renderResumeTheme3 (without_theme d) doc = renderResumeTheme3 d doc"
  unfolding renderResumeTheme3_def getprop_without_theme_other renderHeaderT3_without
  by (rule refl)

text \<open>
  C9: a record whose theme field is present but falsy (such as the empty string) is
  treated exactly as if the field were absent: the resolved theme is the (non-empty) theme
  of the query string, else \<open>"t1"\<close>, and the page is rendered as the record without the
  field is.
\<close>

theorem falsy_record_theme_is_ignored:
  assumes "\<not> truthy (getprop d (js ''theme''))"
  shows "theme_norm (theme_raw env d) =
           (case url_theme env of
              None \<Rightarrow> JStr (js ''t1'')
            | Some q \<Rightarrow> if q = [] then JStr (js ''t1'') else JStr q)
         \<and> theme_norm (theme_raw env d) = theme_norm (theme_raw env (without_theme d))
         \<and> renderResume env d doc = renderResume env (without_theme d) doc"
  using assms theme_without_record [of d env] theme_without_record [of "without_theme d" env]
  by (simp add: renderResume_def Let_def getprop_without_theme renderResumeTheme1_without
        renderResumeTheme2_without renderResumeTheme3_without)

theorem falsy_record_theme_is_ignored_witness:
  "\<not> truthy (getprop (record_with_theme []) (js ''theme''))
   \<and> without_theme (record_with_theme []) = record_A
   \<and> theme_norm (theme_raw (site [] (Some (js ''t2''))) (record_with_theme [])) = JStr (js ''t2'')
   \<and> renderResume (site [] (Some (js ''t2''))) (record_with_theme []) page0
       = renderResume (site [] (Some (js ''t2''))) record_A page0"
proof -
  have a: "\<not> truthy (getprop (record_with_theme []) (js ''theme''))"
    by (simp add: record_with_theme_def)
  have b: "without_theme (record_with_theme []) = record_A"
    by (simp add: record_with_theme_def record_A_def)
  from falsy_record_theme_is_ignored [OF a, where env = "site [] (Some (js ''t2''))" and doc = page0] a b
  show ?thesis by (simp add: site_def)
qed

section \<open>The skills list\<close>

lemma fresh_occurrences_Nil: "fresh_occurrences seen [] = []"
  by (simp add: fresh_occurrences_def)

lemma fresh_occurrences_Cons:
  "fresh_occurrences seen (x # xs) =
     (if x \<in> set seen then fresh_occurrences seen xs
      else x # fresh_occurrences (seen @ [x]) xs)"
proof -
  have up: "[0..<Suc (length xs)] = 0 # map Suc [0..<length xs]"
    by (simp add: upt_conv_Cons map_Suc_upt del: upt_Suc)
  show ?thesis
    by (auto simp: fresh_occurrences_def up filter_map comp_def simp del: upt_Suc
        intro!: arg_cong [where f = "map ((!) xs)"] filter_cong)
qed

text \<open>Adding the strings \<open>xs\<close> one by one to a set that holds the strings \<open>ys\<close>.\<close>

lemma foldl_set_add:
  "foldl set_add (map JStr ys) (map JStr xs) = map JStr (ys @ fresh_occurrences ys xs)"
proof (induction xs arbitrary: ys)
  case Nil
  then show ?case by (simp add: fresh_occurrences_Nil)
next
  case (Cons x xs)
  have ex: "list_ex (\<lambda>u. same_value_zero u (JStr x)) (map JStr ys) \<longleftrightarrow> x \<in> set ys"
    by (induction ys) auto
  show ?case
  proof (cases "x \<in> set ys")
    case True
    then show ?thesis
      using Cons.IH [of ys] by (simp add: set_add_def ex fresh_occurrences_Cons)
  next
    case False
    then show ?thesis
      using Cons.IH [of "ys @ [x]"] by (simp add: set_add_def ex fresh_occurrences_Cons)
  qed
qed

lemma new_Set_strings: "new_Set (map JStr xs) = map JStr (first_occurrences xs)"
  using foldl_set_add [of "[]" xs] by (simp add: new_Set_def first_occurrences_def)

lemma array_join_strings: "array_join sep (map JStr zs) = join_strings sep zs"
  by (simp add: array_join_def comp_def)

lemma all_items_strings:
  "list_all2 is_skill ss cats \<Longrightarrow> all_items ss = map JStr (concat cats)"
  by (induction rule: list_all2_induct) (simp_all add: all_items_def is_skill_def)

lemma set_fresh_occurrences: "set (fresh_occurrences seen xs) = set xs - set seen"
  by (induction xs arbitrary: seen) (auto simp: fresh_occurrences_Cons fresh_occurrences_Nil)

lemma distinct_fresh_occurrences: "distinct (fresh_occurrences seen xs)"
  by (induction xs arbitrary: seen)
    (auto simp: fresh_occurrences_Cons fresh_occurrences_Nil set_fresh_occurrences)

lemma renderSkills_strings:
  assumes "ss \<noteq> []" and "list_all2 is_skill ss cats"
  shows "renderSkills (JArr ss) =
     Some (Elem (js ''section'') (js ''sec'') []
             [Elem (js ''h2'') [] [] [RawHtml (js ''Skills'')],
              Elem (js ''div'') (js ''muted'') []
                [RawHtml (join_strings (js '', '') (first_occurrences (concat cats)))]])"
  using assms
  by (simp add: renderSkills_def all_items_strings new_Set_strings array_join_strings
        new_section_def heading_def make_def innerHTML_of_def)

text \<open>
  C5: for the record with skills \<open>[{items:["Go","Go","Rust"]}, {items:["Rust"]}]\<close> the
  single-column skills section holds exactly the text \<open>Go, Rust\<close>. In general, for a
  non-empty list of categories whose items are strings, the text is the concatenation of
  all categories' items, with only the first occurrence of every value kept (in the order
  of the concatenation, so without repetition and without loss), joined with a comma and
  a space.
\<close>

theorem skills_text_is_deduplicated_list:
  "renderSkills skills_example =
     Some (Elem (js ''section'') (js ''sec'') []
             [Elem (js ''h2'') [] [] [RawHtml (js ''Skills'')],
              Elem (js ''div'') (js ''muted'') [] [RawHtml (js ''Go, Rust'')]])
   \<and> (ss \<noteq> [] \<and> list_all2 is_skill ss cats \<longrightarrow>
        renderSkills (JArr ss) =
          Some (Elem (js ''section'') (js ''sec'') []
                  [Elem (js ''h2'') [] [] [RawHtml (js ''Skills'')],
                   Elem (js ''div'') (js ''muted'') []
                     [RawHtml (join_strings (js '', '') (first_occurrences (concat cats)))]])
        \<and> distinct (first_occurrences (concat cats))
        \<and> set (first_occurrences (concat cats)) = set (concat cats))"
proof -
  have "renderSkills skills_example =
     Some (Elem (js ''section'') (js ''sec'') []
             [Elem (js ''h2'') [] [] [RawHtml (js ''Skills'')],
              Elem (js ''div'') (js ''muted'') [] [RawHtml (js ''Go, Rust'')]])"
    by (simp add: skills_example_def renderSkills_def all_items_def new_Set_def set_add_def
        array_join_def new_section_def heading_def make_def innerHTML_of_def js_def)
  then show ?thesis
    using renderSkills_strings [of ss cats]
    by (simp add: first_occurrences_def distinct_fresh_occurrences set_fresh_occurrences)
qed

theorem skills_text_is_deduplicated_list_witness:
  "skills_with_categories \<noteq> []
   \<and> list_all2 is_skill skills_with_categories
        [[js ''Go'', js ''Go'', js ''Rust''], [js ''Rust'', js ''Linux'']]
   \<and> first_occurrences (concat [[js ''Go'', js ''Go'', js ''Rust''], [js ''Rust'', js ''Linux'']])
       = [js ''Go'', js ''Rust'', js ''Linux'']
   \<and> renderSkills (JArr skills_with_categories) =
       Some (Elem (js ''section'') (js ''sec'') []
               [Elem (js ''h2'') [] [] [RawHtml (js ''Skills'')],
                Elem (js ''div'') (js ''muted'') [] [RawHtml (js ''Go, Rust, Linux'')]])"
proof -
  have a: "skills_with_categories \<noteq> []"
    by (simp add: skills_with_categories_def)
  have b: "list_all2 is_skill skills_with_categories
        [[js ''Go'', js ''Go'', js ''Rust''], [js ''Rust'', js ''Linux'']]"
    by (simp add: skills_with_categories_def is_skill_def)
  have c: "first_occurrences (concat [[js ''Go'', js ''Go'', js ''Rust''], [js ''Rust'', js ''Linux'']])
       = [js ''Go'', js ''Rust'', js ''Linux'']"
    by (simp add: first_occurrences_def fresh_occurrences_Cons fresh_occurrences_Nil)
  have j: "join_strings (js '', '') [js ''Go'', js ''Rust'', js ''Linux''] = js ''Go, Rust, Linux''"
    by (simp add: js_def)
  from skills_text_is_deduplicated_list [of skills_with_categories
      "[[js ''Go'', js ''Go'', js ''Rust''], [js ''Rust'', js ''Linux'']]"] a b
  have "renderSkills (JArr skills_with_categories) =
          Some (Elem (js ''section'') (js ''sec'') []
                  [Elem (js ''h2'') [] [] [RawHtml (js ''Skills'')],
                   Elem (js ''div'') (js ''muted'') []
                     [RawHtml (join_strings (js '', '') (first_occurrences
                        (concat [[js ''Go'', js ''Go'', js ''Rust''], [js ''Rust'', js ''Linux'']])))]])"
    by blast
  then show ?thesis using a b c j by simp
qed

section \<open>The sections of the rendered page\<close>

lemma section_title_other [simp]:
  "tag \<noteq> js ''section'' \<Longrightarrow> section_title (Elem tag cls as cs) = None"
  by (simp add: section_title_def split: list.splits)

lemma st_make_Val [simp]: "section_titles (make tag cls (Val v)) = []"
  by (cases v) (auto simp: make_def section_title_def split: list.splits)

lemma st_make_Nodes [simp]:
  "tag \<noteq> js ''section'' \<Longrightarrow>
   section_titles (make tag cls (Nodes ns)) = concat (map section_titles (List.map_filter (\<lambda>n. n) ns))"
  by (simp add: make_def)

lemma st_append_make [simp]:
  "tag \<noteq> js ''section'' \<Longrightarrow>
   section_titles (append_nodes (make tag cls c) ns) =
     section_titles (make tag cls c) @ concat (map section_titles ns)"
  by (simp add: make_def)

lemma st_setAttribute_make [simp]: "section_titles (setAttribute (make tag cls (Val v)) k x) = []"
  by (cases v) (auto simp: make_def section_title_def split: list.splits)

lemma st_new_section_heading:
  "section_titles (new_section cls (heading t # ns)) = js t # concat (map section_titles ns)"
  by (simp add: new_section_def heading_def make_def section_title_def innerHTML_of_def)

lemma st_new_section_other:
  "h2_title h = None \<Longrightarrow>
   section_titles (new_section cls (h # ns)) = concat (map section_titles (h # ns))"
  by (simp add: new_section_def make_def section_title_def)

lemma st_linkify [simp]:
  "concat (map section_titles (case linkify u l of Some a \<Rightarrow> [a] | None \<Rightarrow> [])) = []"
  by (simp add: linkify_def textContent_def)

lemma st_link_bits: "link_bits ls = Inr bs \<Longrightarrow> concat (map section_titles bs) = []"
proof (induction ls arbitrary: bs)
  case Nil
  then show ?case by simp
next
  case (Cons l ls)
  from Cons.prems obtain bs' where 1: "link_bits ls = Inr bs'"
    and 2: "bs = (case linkify (getprop l (js ''url'')) (getprop l (js ''label'')) of
                   Some a \<Rightarrow> [a] | None \<Rightarrow> []) @ bs'"
    by (auto split: if_splits sum.splits)
  from Cons.IH [OF 1] show ?case unfolding 2 by (simp del: concat_eq_Nil_conv)
qed

lemma st_dot [simp]: "section_titles dot = []"
  by (simp add: dot_def)

lemma st_contact_children:
  "concat (map section_titles bs) = [] \<Longrightarrow> concat (map section_titles (contact_children i bs)) = []"
  by (induction bs arbitrary: i) auto

lemma st_contact_bits:
  assumes "contact_bits d = Inr bs"
  shows "concat (map section_titles bs) = []"
proof -
  from assms obtain b123 bits4 where 1: "bs = b123 @ bits4"
    and 2: "concat (map section_titles b123) = []"
    and 3: "(if isArray (getprop d (js ''links''))
             then link_bits (elements (getprop d (js ''links''))) else Inr []) = Inr bits4"
    unfolding contact_bits_def Let_def
    by (auto simp del: concat_eq_Nil_conv split: sum.splits)
  from 3 have "concat (map section_titles bits4) = []"
    by (auto simp del: concat_eq_Nil_conv split: if_splits dest: st_link_bits)
  with 1 2 show ?thesis by simp
qed

lemma st_header_who [simp]: "section_titles (header_who d) = []"
  by (simp add: header_who_def)

lemma st_contacts_line:
  "concat (map section_titles bs) = [] \<Longrightarrow> section_titles (contacts_line bs) = []"
  by (simp add: contacts_line_def st_contact_children del: concat_eq_Nil_conv)

lemma st_header_deco [simp]: "section_titles header_deco = []"
  by (simp add: header_deco_def)

lemma st_renderHeader: "renderHeader d = Inr h \<Longrightarrow> section_titles h = []"
  by (auto simp: renderHeader_def Let_def st_contacts_line simp del: concat_eq_Nil_conv
        split: if_splits sum.splits dest!: st_contact_bits)

lemma st_highlights [simp]: "concat (map section_titles (highlights_list j)) = []"
  by (simp add: highlights_list_def Let_def comp_def)

lemma st_experience_item [simp]: "section_titles (experience_item j) = []"
  by (simp add: experience_item_def Let_def del: concat_eq_Nil_conv)

lemma st_experience_itemT3 [simp]: "section_titles (experience_itemT3 j) = []"
  by (simp add: experience_itemT3_def Let_def del: concat_eq_Nil_conv)

lemma st_education_item [simp]: "section_titles (education_item j) = []"
  by (simp add: education_item_def Let_def)

lemma st_education_itemT3 [simp]: "section_titles (education_itemT3 j) = []"
  by (simp add: education_itemT3_def Let_def)

lemma st_cert_item [simp]: "section_titles (cert_item j) = []"
  by (simp add: cert_item_def Let_def)

lemma st_for_each_item:
  "for_each_item f es = Inr ns \<Longrightarrow> (\<And>e. section_titles (f e) = []) \<Longrightarrow>
   concat (map section_titles ns) = []"
proof (induction es arbitrary: ns)
  case Nil
  then show ?case by simp
next
  case (Cons e es)
  from Cons.prems(1) obtain ns' where 1: "for_each_item f es = Inr ns'" and 2: "ns = f e # ns'"
    by (auto split: if_splits sum.splits)
  from Cons.IH [OF 1 Cons.prems(2)] Cons.prems(2) show ?case unfolding 2
    by (simp del: concat_eq_Nil_conv)
qed

lemma st_renderSummary: "opt_titles (renderSummary v) = titled (truthy v) ''Professional summary''"
  by (simp add: opt_titles_def renderSummary_def titled_def st_new_section_heading)

lemma st_renderSkills: "opt_titles (renderSkills v) = titled (has_entries v) ''Skills''"
  by (simp add: opt_titles_def renderSkills_def titled_def has_entries_def st_new_section_heading)

lemma st_renderSkillsPills: "opt_titles (renderSkillsPills v) = titled (has_entries v) ''Skills''"
  by (simp add: opt_titles_def renderSkillsPills_def titled_def has_entries_def
        st_new_section_heading comp_def)

lemma st_renderExperience: "opt_titles (renderExperience v) = titled (has_entries v) ''Employment history''"
  by (simp add: opt_titles_def renderExperience_def titled_def has_entries_def
        st_new_section_heading comp_def)

lemma st_renderExperienceT3: "opt_titles (renderExperienceT3 v) = titled (has_entries v) ''Employment history''"
  by (simp add: opt_titles_def renderExperienceT3_def titled_def has_entries_def
        st_new_section_heading comp_def)

lemma st_renderEducation:
  "renderEducation v = Inr r \<Longrightarrow> opt_titles r = titled (has_entries v) ''Education''"
  by (auto simp: opt_titles_def renderEducation_def titled_def has_entries_def
        st_new_section_heading simp del: concat_eq_Nil_conv split: if_splits sum.splits
        dest!: st_for_each_item)

lemma st_renderEducationT3:
  "renderEducationT3 v = Inr r \<Longrightarrow> opt_titles r = titled (has_entries v) ''Education''"
  by (auto simp: opt_titles_def renderEducationT3_def titled_def has_entries_def
        st_new_section_heading simp del: concat_eq_Nil_conv split: if_splits sum.splits
        dest!: st_for_each_item)

lemma st_renderCerts:
  "renderCerts v = Inr r \<Longrightarrow> opt_titles r = titled (has_entries v) ''Certifications''"
  by (auto simp: opt_titles_def renderCerts_def titled_def has_entries_def
        st_new_section_heading simp del: concat_eq_Nil_conv split: if_splits sum.splits
        dest!: st_for_each_item)

lemma st_map_filter:
  "concat (map section_titles (List.map_filter (\<lambda>n. n) rs)) = concat (map opt_titles rs)"
  by (induction rs) (auto simp: List.map_filter_simps opt_titles_def split: option.splits)

lemma page_sections_theme1:
  assumes "renderResumeTheme1 d doc = (out, doc')"
  shows "page_sections doc' = (if out = Completed then expected_sections d else [])"
proof (cases "renderHeader d")
  case (Inl e)
  with assms show ?thesis
    by (auto simp: renderResumeTheme1_def Let_def page_sections_def)
next
  case (Inr h)
  note h = st_renderHeader [OF Inr]
  show ?thesis
  proof (cases "renderEducation (getprop d (js ''education''))")
    case (Inl e)
    with assms Inr h show ?thesis
      by (auto simp: renderResumeTheme1_def Let_def page_sections_def)
  next
    case ed: (Inr ed)
    show ?thesis
    proof (cases "renderCerts (getprop d (js ''certifications''))")
      case (Inl e)
      with assms Inr h ed show ?thesis
        by (auto simp: renderResumeTheme1_def Let_def page_sections_def)
    next
      case ce: (Inr ce)
      from assms Inr ed ce have out: "out = Completed"
        and doc': "root_children doc' = [h] @ List.map_filter (\<lambda>n. n)
                           [renderSummary (getprop d (js ''summary'')),
                            renderSkills (getprop d (js ''skills'')),
                            renderExperience (getprop d (js ''experience'')),
                            ed, ce]"
        by (auto simp: renderResumeTheme1_def Let_def)
      show ?thesis
        unfolding page_sections_def doc' out
        by (simp add: h st_map_filter st_renderSummary st_renderSkills st_renderExperience
              st_renderEducation [OF ed] st_renderCerts [OF ce] expected_sections_def
              del: concat_eq_Nil_conv List.map_filter_simps)
    qed
  qed
qed

lemma st_renderHeaderT3: "renderHeaderT3 d = Inr h \<Longrightarrow> section_titles h = []"
  by (auto simp: renderHeaderT3_def Let_def split: if_splits)

lemma page_sections_theme3:
  assumes "renderResumeTheme3 d doc = (out, doc')"
  shows "page_sections doc' = (if out = Completed then expected_sections d else [])"
proof (cases "renderHeaderT3 d")
  case (Inl e)
  with assms show ?thesis
    by (auto simp: renderResumeTheme3_def Let_def page_sections_def)
next
  case (Inr h)
  note h = st_renderHeaderT3 [OF Inr]
  show ?thesis
  proof (cases "renderEducationT3 (getprop d (js ''education''))")
    case (Inl e)
    with assms Inr h show ?thesis
      by (auto simp: renderResumeTheme3_def Let_def page_sections_def)
  next
    case ed: (Inr ed)
    show ?thesis
    proof (cases "renderCerts (getprop d (js ''certifications''))")
      case (Inl e)
      with assms Inr h ed show ?thesis
        by (auto simp: renderResumeTheme3_def Let_def page_sections_def)
    next
      case ce: (Inr ce)
      from assms Inr ed ce have out: "out = Completed"
        and doc': "root_children doc' = [h] @ List.map_filter (\<lambda>n. n)
                           [renderSummary (getprop d (js ''summary'')),
                            renderSkills (getprop d (js ''skills'')),
                            renderExperienceT3 (getprop d (js ''experience'')),
                            ed, ce]"
        by (auto simp: renderResumeTheme3_def Let_def)
      show ?thesis
        unfolding page_sections_def doc' out
        by (simp add: h st_map_filter st_renderSummary st_renderSkills st_renderExperienceT3
              st_renderEducationT3 [OF ed] st_renderCerts [OF ce] expected_sections_def
              del: concat_eq_Nil_conv List.map_filter_simps)
    qed
  qed
qed

lemma h2_title_columns [simp]:
  "h2_title (append_nodes (make tag cls (Val JUndefined)) [a, b]) = None"
  by (simp add: make_def)

lemma page_sections_theme2:
  assumes "renderResumeTheme2 d doc = (out, doc')"
  shows "page_sections doc' = (if out = Completed then expected_sections_theme2 d else [])"
proof (cases "renderHeader d")
  case (Inl e)
  with assms show ?thesis
    by (auto simp: renderResumeTheme2_def Let_def page_sections_def)
next
  case (Inr h)
  note h = st_renderHeader [OF Inr]
  show ?thesis
  proof (cases "renderEducation (getprop d (js ''education''))")
    case (Inl e)
    with assms Inr h show ?thesis
      by (auto simp: renderResumeTheme2_def Let_def page_sections_def)
  next
    case ed: (Inr ed)
    show ?thesis
    proof (cases "renderCerts (getprop d (js ''certifications''))")
      case (Inl e)
      with assms Inr h ed show ?thesis
        by (auto simp: renderResumeTheme2_def Let_def page_sections_def)
    next
      case ce: (Inr ce)
      from assms Inr ed ce have out: "out = Completed"
        and doc': "root_children doc' =
           [h, new_section (js ''sec'')
             [append_nodes (make (js ''div'') (js ''columns'') (Val JUndefined))
               [append_nodes (make (js ''aside'') (js ''aside'') (Val JUndefined))
                  (List.map_filter (\<lambda>n. n) [renderSkillsPills (getprop d (js ''skills''))]),
                append_nodes (make (js ''div'') (js ''main'') (Val JUndefined))
                  (List.map_filter (\<lambda>n. n)
                     [renderSummary (getprop d (js ''summary'')),
                      renderExperience (getprop d (js ''experience'')),
                      ed, ce])]]]"
        by (auto simp: renderResumeTheme2_def Let_def)
      show ?thesis
        unfolding page_sections_def doc' out
        by (simp add: h st_new_section_other st_map_filter st_renderSummary
              st_renderSkillsPills st_renderExperience
              st_renderEducation [OF ed] st_renderCerts [OF ce] expected_sections_theme2_def
              del: concat_eq_Nil_conv List.map_filter_simps)
    qed
  qed
qed

lemma page_sections_renderResume:
  "page_sections (snd (renderResume env d doc)) =
     (if fst (renderResume env d doc) \<noteq> Completed then []
      else if theme_norm (theme_raw env d) = JStr (js ''t2'') then expected_sections_theme2 d
      else expected_sections d)"
proof -
  define doc1 where
    "doc1 = doc\<lparr>root_class := js ''resume theme-'' @ ToString (theme_norm (theme_raw env d))\<rparr>"
  consider (t2) "theme_norm (theme_raw env d) = JStr (js ''t2'')"
    | (t3) "theme_norm (theme_raw env d) \<noteq> JStr (js ''t2'')"
           "theme_norm (theme_raw env d) = JStr (js ''t3'')"
    | (t1) "theme_norm (theme_raw env d) \<noteq> JStr (js ''t2'')"
           "theme_norm (theme_raw env d) \<noteq> JStr (js ''t3'')"
    by blast
  then show ?thesis
  proof cases
    case t2
    then have "renderResume env d doc = renderResumeTheme2 d doc1"
      by (simp add: renderResume_def Let_def doc1_def)
    then show ?thesis
      using t2 page_sections_theme2 [OF surjective_pairing, of d doc1] by simp
  next
    case t3
    then have "renderResume env d doc = renderResumeTheme3 d doc1"
      by (simp add: renderResume_def Let_def doc1_def)
    then show ?thesis
      using t3 page_sections_theme3 [OF surjective_pairing, of d doc1] by simp
  next
    case t1
    then have "renderResume env d doc = renderResumeTheme1 d doc1"
      by (simp add: renderResume_def Let_def doc1_def)
    then show ?thesis
      using t1 page_sections_theme1 [OF surjective_pairing, of d doc1] by simp
  qed
qed

lemma set_expected_sections_theme2: "set (expected_sections_theme2 d) = set (expected_sections d)"
  by (auto simp: expected_sections_theme2_def expected_sections_def)

lemma page_sections_subset:
  "set (page_sections (snd (renderResume env d doc))) \<subseteq> set (expected_sections d)"
  by (simp add: page_sections_renderResume set_expected_sections_theme2)

lemma page_sections_completed:
  "fst (renderResume env d doc) = Completed \<Longrightarrow>
     set (page_sections (snd (renderResume env d doc))) = set (expected_sections d)"
  by (simp add: page_sections_renderResume set_expected_sections_theme2)

lemma renderHeaderT3_ok: "\<not> nullish d \<Longrightarrow> \<exists>h. renderHeaderT3 d = Inr h"
  by (simp add: renderHeaderT3_def)

lemma renderEducationT3_ok: "no_null_entries ed \<Longrightarrow> \<exists>r. renderEducationT3 ed = Inr r"
  by (simp add: renderEducationT3_def no_null_entries_def for_each_item_ok)

lemma renderResumeTheme2_ok: "renderable d \<Longrightarrow> fst (renderResumeTheme2 d doc) = Completed"
  using renderHeader_ok [of d] renderEducation_ok [of "getprop d (js ''education'')"]
    renderCerts_ok [of "getprop d (js ''certifications'')"]
  by (auto simp: renderable_def renderResumeTheme2_def Let_def)

lemma renderResumeTheme3_ok: "renderable d \<Longrightarrow> fst (renderResumeTheme3 d doc) = Completed"
  using renderHeaderT3_ok [of d] renderEducationT3_ok [of "getprop d (js ''education'')"]
    renderCerts_ok [of "getprop d (js ''certifications'')"]
  by (auto simp: renderable_def renderResumeTheme3_def Let_def)

lemma renderResume_ok: "renderable d \<Longrightarrow> fst (renderResume env d doc) = Completed"
  by (simp add: renderResume_def Let_def renderResumeTheme1_ok renderResumeTheme2_ok
        renderResumeTheme3_ok)

text \<open>
  C7, as the specification states it, fails for the summary: it takes "absent or an empty
  list" as the condition of every section, the summary included, but \<open>renderSummary\<close>
  tests \<open>!txt\<close>, and an empty list is truthy. For a record whose summary is \<open>[]\<close> the
  page gets the summary section: its heading over an empty \<open>div\<close>.
\<close>

theorem empty_list_summary_is_rendered:
  "absent_or_empty (getprop record_summary_list (js ''summary''))
   \<and> renderSummary (getprop record_summary_list (js ''summary'')) =
       Some (Elem (js ''section'') (js ''sec'') []
               [Elem (js ''h2'') [] [] [RawHtml (js ''Professional summary'')],
                Elem (js ''div'') (js ''muted'') [] []])
   \<and> fst (renderResume (site [] None) record_summary_list page0) = Completed
   \<and> page_sections (snd (renderResume (site [] None) record_summary_list page0))
       = [js ''Professional summary'']
   \<and> js ''Professional summary''
       \<in> set (page_sections (snd (renderResume (site [] None) record_summary_list page0)))"
proof -
  have a: "absent_or_empty (getprop record_summary_list (js ''summary''))"
    by (simp add: record_summary_list_def absent_or_empty_def)
  have s: "renderSummary (getprop record_summary_list (js ''summary'')) =
       Some (Elem (js ''section'') (js ''sec'') []
               [Elem (js ''h2'') [] [] [RawHtml (js ''Professional summary'')],
                Elem (js ''div'') (js ''muted'') [] []])"
    by (simp add: record_summary_list_def renderSummary_def new_section_def heading_def
          make_def innerHTML_of_def)
  have r: "fst (renderResume (site [] None) record_summary_list page0) = Completed"
    by (rule renderResume_ok)
      (simp add: renderable_def no_null_entries_def record_summary_list_def)
  have n: "theme_norm (theme_raw (site [] None) record_summary_list) \<noteq> JStr (js ''t2'')"
    by (simp add: theme_norm_def theme_raw_def or_else_def record_summary_list_def site_def)
  have e: "expected_sections record_summary_list = [js ''Professional summary'']"
    by (simp add: expected_sections_def titled_def has_entries_def record_summary_list_def)
  have p: "page_sections (snd (renderResume (site [] None) record_summary_list page0))
       = [js ''Professional summary'']"
    by (simp add: page_sections_renderResume r n e)
  show ?thesis
    by (simp add: a s r p)
qed

text \<open>
  C7 (amended): for every record with no summary field the rendered page has no summary
  section node. The summary section is omitted when the summary is absent or the empty
  string, and each of the sections skills, experience, education and certifications is
  omitted when its backing field is absent or an empty list: the page then has no section
  node of that title, in any theme. When rendering completes, the sections of the page are
  exactly those the record has content for.
\<close>

theorem sections_without_content_are_omitted:
  "(getprop d (js ''summary'') = JUndefined \<longrightarrow>
      js ''Professional summary'' \<notin> set (page_sections (snd (renderResume env d doc))))
   \<and> (absent_or_blank (getprop d (js ''summary'')) \<longrightarrow>
      js ''Professional summary'' \<notin> set (page_sections (snd (renderResume env d doc))))
   \<and> (absent_or_empty (getprop d (js ''skills'')) \<longrightarrow>
      js ''Skills'' \<notin> set (page_sections (snd (renderResume env d doc))))
   \<and> (absent_or_empty (getprop d (js ''experience'')) \<longrightarrow>
      js ''Employment history'' \<notin> set (page_sections (snd (renderResume env d doc))))
   \<and> (absent_or_empty (getprop d (js ''education'')) \<longrightarrow>
      js ''Education'' \<notin> set (page_sections (snd (renderResume env d doc))))
   \<and> (absent_or_empty (getprop d (js ''certifications'')) \<longrightarrow>
      js ''Certifications'' \<notin> set (page_sections (snd (renderResume env d doc))))
   \<and> (fst (renderResume env d doc) = Completed \<longrightarrow>
      set (page_sections (snd (renderResume env d doc))) = set (expected_sections d))"
proof -
  have "x \<notin> set (page_sections (snd (renderResume env d doc)))" if "x \<notin> set (expected_sections d)" for x
    using that page_sections_subset [of env d doc] by blast
  moreover have "js ''Professional summary'' \<notin> set (expected_sections d)"
    if "getprop d (js ''summary'') = JUndefined"
    using that by (simp add: expected_sections_def titled_def)
  moreover have "js ''Professional summary'' \<notin> set (expected_sections d)"
    if "absent_or_blank (getprop d (js ''summary''))"
    using that by (auto simp: expected_sections_def titled_def absent_or_blank_def)
  moreover have "js ''Skills'' \<notin> set (expected_sections d)"
    if "absent_or_empty (getprop d (js ''skills''))"
    using that by (auto simp: expected_sections_def titled_def absent_or_empty_def has_entries_def)
  moreover have "js ''Employment history'' \<notin> set (expected_sections d)"
    if "absent_or_empty (getprop d (js ''experience''))"
    using that by (auto simp: expected_sections_def titled_def absent_or_empty_def has_entries_def)
  moreover have "js ''Education'' \<notin> set (expected_sections d)"
    if "absent_or_empty (getprop d (js ''education''))"
    using that by (auto simp: expected_sections_def titled_def absent_or_empty_def has_entries_def)
  moreover have "js ''Certifications'' \<notin> set (expected_sections d)"
    if "absent_or_empty (getprop d (js ''certifications''))"
    using that by (auto simp: expected_sections_def titled_def absent_or_empty_def has_entries_def)
  ultimately show ?thesis
    using page_sections_completed [of env d doc] by blast
qed


theorem sections_without_content_are_omitted_witness:
  "getprop record_A (js ''summary'') = JUndefined
   \<and> absent_or_blank (getprop record_A (js ''summary''))
   \<and> absent_or_empty (getprop record_A (js ''skills''))
   \<and> absent_or_empty (getprop record_A (js ''experience''))
   \<and> absent_or_empty (getprop record_A (js ''education''))
   \<and> absent_or_empty (getprop record_A (js ''certifications''))
   \<and> fst (renderResume (site [] None) record_A page0) = Completed
   \<and> page_sections (snd (renderResume (site [] None) record_A page0)) = []
   \<and> absent_or_empty (getprop record_summary_education (js ''skills''))
   \<and> fst (renderResume (site [] None) record_summary_education page0) = Completed
   \<and> js ''Skills'' \<notin> set (page_sections (snd (renderResume (site [] None) record_summary_education page0)))
   \<and> set (page_sections (snd (renderResume (site [] None) record_summary_education page0)))
       = {js ''Professional summary'', js ''Education''}"
proof -
  have a: "getprop record_A (js ''summary'') = JUndefined"
    "absent_or_blank (getprop record_A (js ''summary''))"
    "absent_or_empty (getprop record_A (js ''skills''))"
    "absent_or_empty (getprop record_A (js ''experience''))"
    "absent_or_empty (getprop record_A (js ''education''))"
    "absent_or_empty (getprop record_A (js ''certifications''))"
    by (simp_all add: record_A_def absent_or_empty_def absent_or_blank_def)
  have ra: "fst (renderResume (site [] None) record_A page0) = Completed"
    by (rule renderResume_ok) (simp add: renderable_def no_null_entries_def record_A_def)
  have ea: "expected_sections record_A = []"
    by (simp add: expected_sections_def titled_def has_entries_def record_A_def)
  have b: "absent_or_empty (getprop record_summary_education (js ''skills''))"
    by (simp add: record_summary_education_def absent_or_empty_def)
  have rb: "fst (renderResume (site [] None) record_summary_education page0) = Completed"
    by (rule renderResume_ok)
      (simp add: renderable_def no_null_entries_def record_summary_education_def)
  have eb: "expected_sections record_summary_education = [js ''Professional summary'', js ''Education'']"
    by (simp add: expected_sections_def titled_def has_entries_def record_summary_education_def)
  note ta = sections_without_content_are_omitted [of record_A "site [] None" page0]
  note tb = sections_without_content_are_omitted [of record_summary_education "site [] None" page0]
  from ta ra ea have "page_sections (snd (renderResume (site [] None) record_A page0)) = []"
    by simp
  moreover from tb b
  have "js ''Skills'' \<notin> set (page_sections (snd (renderResume (site [] None) record_summary_education page0)))"
    by blast
  moreover from tb rb eb
  have "set (page_sections (snd (renderResume (site [] None) record_summary_education page0)))
       = {js ''Professional summary'', js ''Education''}"
    by simp
  ultimately show ?thesis using a ra b rb by blast
qed

section \<open>The bootstrap sequence\<close>

lemma bootstrap_completes: "fst (bootstrap env doc) = Completed"
  by (simp add: bootstrap_def split: prod.splits outcome.splits)

lemma bootstrap_after_raise:
  assumes "loadResumeData env = Inr d" and "truthy d"
    and "renderResume env d doc = (Raised x, doc')"
  shows "snd (bootstrap env doc) = set_note_hidden False doc'"
  using assms by (simp add: bootstrap_def bootstrap_try_def)

text \<open>What a theme leaves in the container when it raises: nothing, or the header alone.\<close>

lemma raised_theme1:
  "renderResumeTheme1 d doc = (Raised x, doc') \<Longrightarrow>
   root_children doc' = [] \<or> (\<exists>h. renderHeader d = Inr h \<and> root_children doc' = [h])"
  by (auto simp: renderResumeTheme1_def Let_def split: sum.splits)

lemma raised_theme2:
  "renderResumeTheme2 d doc = (Raised x, doc') \<Longrightarrow>
   root_children doc' = [] \<or> (\<exists>h. renderHeader d = Inr h \<and> root_children doc' = [h])"
  by (auto simp: renderResumeTheme2_def Let_def split: sum.splits)

lemma raised_theme3:
  "renderResumeTheme3 d doc = (Raised x, doc') \<Longrightarrow>
   root_children doc' = [] \<or> (\<exists>h. renderHeaderT3 d = Inr h \<and> root_children doc' = [h])"
  by (auto simp: renderResumeTheme3_def Let_def split: sum.splits)

lemma raised_renderResume:
  "renderResume env d doc = (Raised x, doc') \<Longrightarrow> length (root_children doc') \<le> 1"
  by (auto simp: renderResume_def Let_def split: if_splits
        dest: raised_theme1 raised_theme2 raised_theme3)

text \<open>
  C6, as the specification states it, fails: the exception is caught and the notice is
  shown, but the container is not cleared. With a \<open>resume.json\<close> whose education list has
  a \<open>null\<close> entry, \<open>renderEducation\<close> throws a TypeError after the header has been
  appended, and the header stays in the container.
\<close>

theorem render_exception_leaves_the_header:
  "loadResumeData site_null_entry = Inr record_null_entry
   \<and> truthy record_null_entry
   \<and> fst (renderResume site_null_entry record_null_entry page0) = Raised TypeError
   \<and> fst (bootstrap site_null_entry page0) = Completed
   \<and> note_hidden (snd (bootstrap site_null_entry page0)) = Some False
   \<and> renderHeader record_null_entry = Inr (the_header record_null_entry)
   \<and> root_children (snd (bootstrap site_null_entry page0)) = [the_header record_null_entry]
   \<and> root_children (snd (bootstrap site_null_entry page0)) \<noteq> []"
proof -
  have l: "loadResumeData site_null_entry = Inr record_null_entry"
    by (simp add: example_defs loader_defs)
  have t: "truthy record_null_entry"
    by (simp add: record_null_entry_def)
  have n: "theme_norm (theme_raw site_null_entry record_null_entry) = JStr (js ''t1'')"
    by (simp add: theme_norm_def theme_raw_def or_else_def record_null_entry_def
          site_null_entry_def site_def)
  have h: "renderHeader record_null_entry = Inr (the_header record_null_entry)"
    by (simp add: the_header_def renderHeader_def contact_bits_def record_null_entry_def)
  have e: "renderEducation (getprop record_null_entry (js ''education'')) = Inl TypeError"
    by (simp add: renderEducation_def record_null_entry_def)
  have r: "renderResume site_null_entry record_null_entry page0 =
      (Raised TypeError,
       page0\<lparr>root_class := js ''resume theme-t1'', root_children := [the_header record_null_entry]\<rparr>)"
    by (simp add: renderResume_def n renderResumeTheme1_def h e js_append)
  have b: "snd (bootstrap site_null_entry page0) =
      set_note_hidden False
        (page0\<lparr>root_class := js ''resume theme-t1'', root_children := [the_header record_null_entry]\<rparr>)"
    using l t r by (rule bootstrap_after_raise)
  have nh: "note_hidden (snd (bootstrap site_null_entry page0)) = Some False"
    unfolding b by (simp add: set_note_hidden_def page0_def)
  have rc: "root_children (snd (bootstrap site_null_entry page0)) = [the_header record_null_entry]"
    unfolding b by (simp add: set_note_hidden_def)
  show ?thesis
    by (simp add: l t r h nh rc bootstrap_completes)
qed

text \<open>
  C6 (amended): in \<open>src/assets/app.js\<close>, \<open>bootstrap\<close> never raises: every exception thrown
  while loading or rendering is caught at its top level, and after an exception thrown
  during rendering the notice element, when the page has one, is shown. The container is
  left as the rendering left it when it raised: it holds at most the header, and no section.
\<close>

theorem bootstrap_catches_and_shows_the_notice:
  "fst (bootstrap env doc) = Completed
   \<and> (loadResumeData env = Inr d \<and> truthy d \<and> renderResume env d doc = (Raised x, doc') \<longrightarrow>
        snd (bootstrap env doc) = set_note_hidden False doc'
        \<and> note_hidden (snd (bootstrap env doc)) \<noteq> Some True
        \<and> root_children (snd (bootstrap env doc)) = root_children doc'
        \<and> length (root_children doc') \<le> 1
        \<and> page_sections (snd (bootstrap env doc)) = [])"
proof -
  have "snd (bootstrap env doc) = set_note_hidden False doc'
        \<and> note_hidden (snd (bootstrap env doc)) \<noteq> Some True
        \<and> root_children (snd (bootstrap env doc)) = root_children doc'
        \<and> length (root_children doc') \<le> 1
        \<and> page_sections (snd (bootstrap env doc)) = []"
    if a: "loadResumeData env = Inr d" "truthy d" "renderResume env d doc = (Raised x, doc')"
  proof -
    have s: "snd (bootstrap env doc) = set_note_hidden False doc'"
      using a by (rule bootstrap_after_raise)
    have p: "page_sections doc' = []"
      using page_sections_renderResume [of env d doc] a(3) by simp
    show ?thesis
      using raised_renderResume [OF a(3)] p
      by (auto simp: s set_note_hidden_def page_sections_def)
  qed
  then show ?thesis
    using bootstrap_completes [of env doc] by blast
qed

theorem bootstrap_catches_and_shows_the_notice_witness:
  "loadResumeData site_null_entry = Inr record_null_entry
   \<and> truthy record_null_entry
   \<and> renderResume site_null_entry record_null_entry page0 =
       (Raised TypeError,
        page0\<lparr>root_class := js ''resume theme-t1'', root_children := [the_header record_null_entry]\<rparr>)
   \<and> fst (bootstrap site_null_entry page0) = Completed
   \<and> note_hidden (snd (bootstrap site_null_entry page0)) \<noteq> Some True
   \<and> page_sections (snd (bootstrap site_null_entry page0)) = []"
proof -
  have l: "loadResumeData site_null_entry = Inr record_null_entry"
    by (simp add: example_defs loader_defs)
  have t: "truthy record_null_entry"
    by (simp add: record_null_entry_def)
  have n: "theme_norm (theme_raw site_null_entry record_null_entry) = JStr (js ''t1'')"
    by (simp add: theme_norm_def theme_raw_def or_else_def record_null_entry_def
          site_null_entry_def site_def)
  have h: "renderHeader record_null_entry = Inr (the_header record_null_entry)"
    by (simp add: the_header_def renderHeader_def contact_bits_def record_null_entry_def)
  have e: "renderEducation (getprop record_null_entry (js ''education'')) = Inl TypeError"
    by (simp add: renderEducation_def record_null_entry_def)
  have r: "renderResume site_null_entry record_null_entry page0 =
      (Raised TypeError,
       page0\<lparr>root_class := js ''resume theme-t1'', root_children := [the_header record_null_entry]\<rparr>)"
    by (simp add: renderResume_def n renderResumeTheme1_def h e js_append)
  from bootstrap_catches_and_shows_the_notice
    [of site_null_entry page0 record_null_entry TypeError
      "page0\<lparr>root_class := js ''resume theme-t1'', root_children := [the_header record_null_entry]\<rparr>"]
    l t r
  show ?thesis by blast
qed

text \<open>
  The \<open>bootstrap\<close> of \<open>src/unnamed/part_000\<close> has no \<open>try\<close>: on the same site the
  TypeError leaves it, and the notice stays as it was.
\<close>

lemma bootstrap_part000_does_not_catch:
  "loadResumeData_part000 site_null_entry = Inr record_null_entry
   \<and> fst (bootstrap_part000 site_null_entry page0) = Raised TypeError
   \<and> note_hidden (snd (bootstrap_part000 site_null_entry page0)) = Some True"
proof -
  have l: "loadResumeData_part000 site_null_entry = Inr record_null_entry"
    by (simp add: example_defs loader_defs)
  have t: "truthy record_null_entry"
    by (simp add: record_null_entry_def)
  have n: "theme_norm (theme_raw site_null_entry record_null_entry) = JStr (js ''t1'')"
    by (simp add: theme_norm_def theme_raw_def or_else_def record_null_entry_def
          site_null_entry_def site_def)
  have h: "renderHeader record_null_entry = Inr (the_header record_null_entry)"
    by (simp add: the_header_def renderHeader_def contact_bits_def record_null_entry_def)
  have e: "renderEducation (getprop record_null_entry (js ''education'')) = Inl TypeError"
    by (simp add: renderEducation_def record_null_entry_def)
  have r: "renderResume site_null_entry record_null_entry page0 =
      (Raised TypeError,
       page0\<lparr>root_class := js ''resume theme-t1'', root_children := [the_header record_null_entry]\<rparr>)"
    by (simp add: renderResume_def n renderResumeTheme1_def h e js_append)
  have b: "bootstrap_part000 site_null_entry page0 =
      (Raised TypeError,
       page0\<lparr>root_class := js ''resume theme-t1'', root_children := [the_header record_null_entry]\<rparr>)"
    by (simp add: bootstrap_part000_def l t r)
  show ?thesis
    unfolding b by (simp add: l page0_def)
qed

section \<open>The contact line of the header\<close>






















end
